theory Spec2Isabelle
  imports Complex_Main
begin

section \<open>The fragment of Python the OCR server runs on\<close>

text \<open>
  The recognition engine (\<^verbatim>\<open>ocr_engine.py\<close>) receives the detector's output as untyped
  Python values and picks it apart with indexing, iteration, \<^verbatim>\<open>float()\<close>, \<^verbatim>\<open>round()\<close> and
  \<^verbatim>\<open>str.join\<close>. Those values are modelled by \<open>pyval\<close>: \<^verbatim>\<open>None\<close>, integers, floats, strings,
  lists, tuples and dictionaries with string keys (insertion ordered, hence association
  lists). Floats are modelled by the real numbers they denote: rounding error, infinities
  and NaN are outside the model, while the \<^verbatim>\<open>OverflowError\<close> of an integer too large to
  become a float is in it. A Python string is a \<open>string\<close>, one \<open>char\<close> per code
  point below 256.
\<close>

datatype pyval =
    PNone
  | PInt int
  | PFloat real
  | PStr string
  | PList "pyval list"
  | PTuple "pyval list"
  | PDict "(string \<times> pyval) list"

text \<open>
  An exception is its class name and the text \<^verbatim>\<open>str(e)\<close> gives; the handlers only ever look
  at the latter. Every exception of the model is an instance of \<^verbatim>\<open>Exception\<close>, which is what
  the \<^verbatim>\<open>except Exception\<close> clauses of the source catch.
\<close>

datatype pyexc = PyExc (exc_class: string) (exc_str: string)

definition bind_exc :: "pyexc + 'a \<Rightarrow> ('a \<Rightarrow> pyexc + 'b) \<Rightarrow> pyexc + 'b" where
  "bind_exc m f = (case m of Inl e \<Rightarrow> Inl e | Inr x \<Rightarrow> f x)"

fun type_name :: "pyval \<Rightarrow> string" where
  "type_name PNone = ''NoneType''"
| "type_name (PInt _) = ''int''"
| "type_name (PFloat _) = ''float''"
| "type_name (PStr _) = ''str''"
| "type_name (PList _) = ''list''"
| "type_name (PTuple _) = ''tuple''"
| "type_name (PDict _) = ''dict''"

definition quoted :: "string \<Rightarrow> string" where
  "quoted s = CHR 0x27 # s @ [CHR 0x27]"

fun show_nat :: "nat \<Rightarrow> string" where
  "show_nat n =
     (if n < 10 then [char_of (48 + n)]
      else show_nat (n div 10) @ [char_of (48 + n mod 10)])"

declare show_nat.simps [simp del]

text \<open>Truth value of an object, as \<^verbatim>\<open>if x\<close> and \<^verbatim>\<open>not x\<close> test it.\<close>

fun py_bool :: "pyval \<Rightarrow> bool" where
  "py_bool PNone = False"
| "py_bool (PInt n) = (n \<noteq> 0)"
| "py_bool (PFloat x) = (x \<noteq> 0)"
| "py_bool (PStr s) = (s \<noteq> [])"
| "py_bool (PList xs) = (xs \<noteq> [])"
| "py_bool (PTuple xs) = (xs \<noteq> [])"
| "py_bool (PDict kvs) = (kvs \<noteq> [])"

text \<open>The elements a \<^verbatim>\<open>for\<close> loop or a comprehension visits.\<close>

fun py_iter :: "pyval \<Rightarrow> pyexc + pyval list" where
  "py_iter (PList xs) = Inr xs"
| "py_iter (PTuple xs) = Inr xs"
| "py_iter (PStr s) = Inr (map (\<lambda>c. PStr [c]) s)"
| "py_iter (PDict kvs) = Inr (map (\<lambda>kv. PStr (fst kv)) kvs)"
| "py_iter v = Inl (PyExc ''TypeError'' (quoted (type_name v) @ '' object is not iterable''))"

text \<open>
  \<^verbatim>\<open>v[i]\<close> for a constant index \<open>i \<ge> 0\<close> (the source only writes 0, 1 and 2). A dictionary
  with string keys has no integer key.
\<close>

fun py_getitem :: "pyval \<Rightarrow> nat \<Rightarrow> pyexc + pyval" where
  "py_getitem (PList xs) i =
     (if i < length xs then Inr (xs ! i)
      else Inl (PyExc ''IndexError'' ''list index out of range''))"
| "py_getitem (PTuple xs) i =
     (if i < length xs then Inr (xs ! i)
      else Inl (PyExc ''IndexError'' ''tuple index out of range''))"
| "py_getitem (PStr s) i =
     (if i < length s then Inr (PStr [s ! i])
      else Inl (PyExc ''IndexError'' ''string index out of range''))"
| "py_getitem (PDict kvs) i = Inl (PyExc ''KeyError'' (show_nat i))"
| "py_getitem v i =
     Inl (PyExc ''TypeError'' (quoted (type_name v) @ '' object is not subscriptable''))"

text \<open>
  An integer becomes a float (in \<^verbatim>\<open>float(n)\<close>, in \<^verbatim>\<open>n + 0.5\<close>, under the format
  \<^verbatim>\<open>.2f\<close>) when it rounds to a finite double, that is below \<open>2\<^sup>1\<^sup>0\<^sup>2\<^sup>4 - 2\<^sup>9\<^sup>7\<^sup>0\<close> in
  absolute value, half way from the largest double to \<open>2\<^sup>1\<^sup>0\<^sup>2\<^sup>4\<close>; beyond, Python raises.
\<close>

definition float_limit :: int where
  "float_limit = 2 ^ 1024 - 2 ^ 970"

definition int_to_float :: "int \<Rightarrow> pyexc + real" where
  "int_to_float n =
     (if \<bar>n\<bar> < float_limit then Inr (of_int n)
      else Inl (PyExc ''OverflowError'' ''int too large to convert to float''))"

text \<open>
  \<^verbatim>\<open>a + b\<close>. An integer and a float add to a float; sequences of one kind concatenate.
\<close>

definition add_type_error :: "pyval \<Rightarrow> pyval \<Rightarrow> pyexc" where
  "add_type_error a b =
     PyExc ''TypeError'' (''unsupported operand type(s) for +: '' @ quoted (type_name a)
       @ '' and '' @ quoted (type_name b))"

definition py_add :: "pyval \<Rightarrow> pyval \<Rightarrow> pyexc + pyval" where
  "py_add a b =
     (case a of
        PInt x \<Rightarrow>
          (case b of PInt y \<Rightarrow> Inr (PInt (x + y))
                   | PFloat y \<Rightarrow> bind_exc (int_to_float x) (\<lambda>a. Inr (PFloat (a + y)))
                   | _ \<Rightarrow> Inl (add_type_error a b))
      | PFloat x \<Rightarrow>
          (case b of PInt y \<Rightarrow> bind_exc (int_to_float y) (\<lambda>c. Inr (PFloat (x + c)))
                   | PFloat y \<Rightarrow> Inr (PFloat (x + y))
                   | _ \<Rightarrow> Inl (add_type_error a b))
      | PStr x \<Rightarrow> (case b of PStr y \<Rightarrow> Inr (PStr (x @ y)) | _ \<Rightarrow> Inl (add_type_error a b))
      | PList x \<Rightarrow> (case b of PList y \<Rightarrow> Inr (PList (x @ y)) | _ \<Rightarrow> Inl (add_type_error a b))
      | PTuple x \<Rightarrow>
          (case b of PTuple y \<Rightarrow> Inr (PTuple (x @ y)) | _ \<Rightarrow> Inl (add_type_error a b))
      | _ \<Rightarrow> Inl (add_type_error a b))"

text \<open>\<^verbatim>\<open>sum(xs)\<close>: the elements are added, left to right, to the integer 0.\<close>

fun sum_from :: "pyval \<Rightarrow> pyval list \<Rightarrow> pyexc + pyval" where
  "sum_from acc [] = Inr acc"
| "sum_from acc (x # xs) =
     (case py_add acc x of Inl e \<Rightarrow> Inl e | Inr acc' \<Rightarrow> sum_from acc' xs)"

definition py_sum :: "pyval \<Rightarrow> pyexc + pyval" where
  "py_sum v = bind_exc (py_iter v) (sum_from (PInt 0))"

text \<open>
  \<^verbatim>\<open>f"{v:.2f}"\<close>, as the two \<^verbatim>\<open>logger.info\<close> calls inside the \<^verbatim>\<open>try\<close> of \<^verbatim>\<open>process\<close>
  evaluate it. The text goes to the log; what reaches the caller is whether formatting
  raises: an integer is converted to a float first, and only numbers have the format.
\<close>

definition py_format_2f :: "pyval \<Rightarrow> pyexc + unit" where
  "py_format_2f v =
     (case v of
        PInt n \<Rightarrow> bind_exc (int_to_float n) (\<lambda>a. Inr ())
      | PFloat x \<Rightarrow> Inr ()
      | PStr s \<Rightarrow>
          Inl (PyExc ''ValueError'' (''Unknown format code '' @ quoted ''f''
                 @ '' for object of type '' @ quoted ''str''))
      | _ \<Rightarrow>
          Inl (PyExc ''TypeError'' (''unsupported format string passed to ''
                 @ type_name v @ ''.__format__'')))"

text \<open>
  \<^verbatim>\<open>round(x, 3)\<close> on a float: the nearest multiple of 1/1000, a tie going to the even
  multiple.
\<close>

definition py_round3 :: "real \<Rightarrow> real" where
  "py_round3 x =
     (let y = x * 1000; f = \<lfloor>y\<rfloor>; d = y - of_int f
      in of_int (if d < 1/2 then f else if 1/2 < d then f + 1
                 else if even f then f else f + 1) / 1000)"

text \<open>\<^verbatim>\<open>sep.join(strings)\<close> on strings, and on a list of objects, where a non-string raises.\<close>

fun join_str :: "string \<Rightarrow> string list \<Rightarrow> string" where
  "join_str sep [] = []"
| "join_str sep [s] = s"
| "join_str sep (s # t # ts) = s @ sep @ join_str sep (t # ts)"

fun strs_from :: "nat \<Rightarrow> pyval list \<Rightarrow> pyexc + string list" where
  "strs_from i [] = Inr []"
| "strs_from i (PStr s # vs) =
     (case strs_from (Suc i) vs of Inl e \<Rightarrow> Inl e | Inr ss \<Rightarrow> Inr (s # ss))"
| "strs_from i (v # vs) =
     Inl (PyExc ''TypeError'' (''sequence item '' @ show_nat i @ '': expected str instance, ''
       @ type_name v @ '' found''))"

definition py_join :: "string \<Rightarrow> pyval list \<Rightarrow> pyexc + string" where
  "py_join sep vs = bind_exc (strs_from 0 vs) (\<lambda>ss. Inr (join_str sep ss))"

text \<open>
  \<^verbatim>\<open>str.splitlines()\<close>: a line ends at a line boundary (LF, VT, FF, CR, FS, GS, RS, NEL, and CR
  LF taken as one); the boundaries are dropped, and no empty line follows the last one.
\<close>

definition is_linebreak :: "char \<Rightarrow> bool" where
  "is_linebreak c =
     (c = CHR 0x0A \<or> c = CHR 0x0B \<or> c = CHR 0x0C \<or> c = CHR 0x0D \<or>
      c = CHR 0x1C \<or> c = CHR 0x1D \<or> c = CHR 0x1E \<or> c = CHR 0x85)"

fun splitlines_from :: "string \<Rightarrow> string \<Rightarrow> string list" where
  "splitlines_from cur [] = (if cur = [] then [] else [cur])"
| "splitlines_from cur (c # cs) =
     (if c = CHR 0x0D \<and> cs \<noteq> [] \<and> hd cs = CHR 0x0A then cur # splitlines_from [] (tl cs)
      else if is_linebreak c then cur # splitlines_from [] cs
      else splitlines_from (cur @ [c]) cs)"

definition splitlines :: "string \<Rightarrow> string list" where
  "splitlines s = splitlines_from [] s"

text \<open>\<^verbatim>\<open>s.startswith(p)\<close>, \<^verbatim>\<open>s.split(sep, 1)\<close> for a one-character separator.\<close>

definition startswith :: "string \<Rightarrow> string \<Rightarrow> bool" where
  "startswith s p = (take (length p) s = p)"

definition split_once :: "char \<Rightarrow> string \<Rightarrow> string list" where
  "split_once sep s =
     (if sep \<in> set s
      then [takeWhile (\<lambda>c. c \<noteq> sep) s, tl (dropWhile (\<lambda>c. c \<noteq> sep) s)]
      else [s])"

section \<open>The collaborators\<close>

text \<open>
  What the server calls and this repository does not define: the detector (the
  \<^verbatim>\<open>RapidOCR\<close> session, \<^verbatim>\<open>self._ocr(image)\<close>, returning the raw detections and the list of
  stage times, or raising), \<^verbatim>\<open>float()\<close> on a string, \<^verbatim>\<open>base64.b64decode\<close>, Pillow's
  \<^verbatim>\<open>Image.open\<close> on bytes and on a path, \<^verbatim>\<open>img.mode\<close>, \<^verbatim>\<open>img.convert("RGB")\<close>, and the file
  system behind \<^verbatim>\<open>os.path.exists\<close> and \<^verbatim>\<open>os.path.isfile\<close>. They are the fields of an
  environment; \<open>'img\<close> is the type of decoded images.
\<close>

type_synonym bytes = "nat list"

record 'img env =
  detect :: "'img \<Rightarrow> pyexc + (pyval \<times> pyval)"
  float_of_str :: "string \<Rightarrow> pyexc + real"
  b64decode :: "string \<Rightarrow> pyexc + bytes"
  image_open :: "bytes \<Rightarrow> pyexc + 'img"
  image_open_path :: "string \<Rightarrow> pyexc + 'img"
  img_mode :: "'img \<Rightarrow> string"
  convert_rgb :: "'img \<Rightarrow> pyexc + 'img"
  path_exists :: "string \<Rightarrow> bool"
  path_isfile :: "string \<Rightarrow> bool"

text \<open>\<^verbatim>\<open>float(v)\<close>.\<close>

fun py_float :: "'img env \<Rightarrow> pyval \<Rightarrow> pyexc + real" where
  "py_float E (PInt n) = int_to_float n"
| "py_float E (PFloat x) = Inr x"
| "py_float E (PStr s) = float_of_str E s"
| "py_float E v =
     Inl (PyExc ''TypeError''
       (''float() argument must be a string or a real number, not '' @ quoted (type_name v)))"

text \<open>\<^verbatim>\<open>os.path.isabs\<close> of \<^verbatim>\<open>posixpath\<close>: the path starts with a slash.\<close>

definition isabs :: "string \<Rightarrow> bool" where
  "isabs p = startswith p ''/''"

section \<open>The recognition engine\<close>

record OCRBlock =
  b_text :: pyval
  b_confidence :: real
  b_box :: "real list list"

record OCRResult =
  r_text :: string
  r_blocks :: "OCRBlock list"
  r_elapsed_seconds :: pyval
  r_error :: "string option"

text \<open>
  \<^verbatim>\<open>OCRResult.to_dict\<close>. The \<^verbatim>\<open>error\<close> key is added under \<^verbatim>\<open>if self.error:\<close>, the truth
  value of the field: neither \<^verbatim>\<open>None\<close> nor the empty string adds it.
\<close>

definition block_dict :: "OCRBlock \<Rightarrow> pyval" where
  "block_dict b =
     PDict [(''text'', b_text b),
            (''confidence'', PFloat (b_confidence b)),
            (''box'', PList (map (\<lambda>p. PList (map PFloat p)) (b_box b)))]"

definition to_dict :: "OCRResult \<Rightarrow> pyval" where
  "to_dict r =
     (let result = [(''text'', PStr (r_text r)), (''blocks'', PList (map block_dict (r_blocks r)))]
      in case r_error r of
           None \<Rightarrow> PDict result
         | Some m \<Rightarrow> if m \<noteq> [] then PDict (result @ [(''error'', PStr m)]) else PDict result)"

text \<open>
  The body of the loop of \<^verbatim>\<open>process\<close>: \<^verbatim>\<open>box = item[0]\<close>, \<^verbatim>\<open>text = item[1]\<close>,
  \<^verbatim>\<open>confidence = item[2]\<close>, then the block, whose arguments are evaluated in the order
  written: the confidence, then the box, one point after the other.
\<close>

definition box_point :: "'img env \<Rightarrow> pyval \<Rightarrow> pyexc + real list" where
  "box_point E p =
     bind_exc (py_getitem p 0) (\<lambda>p0. bind_exc (py_float E p0) (\<lambda>x.
     bind_exc (py_getitem p 1) (\<lambda>p1. bind_exc (py_float E p1) (\<lambda>y. Inr [x, y]))))"

fun box_points :: "'img env \<Rightarrow> pyval list \<Rightarrow> pyexc + real list list" where
  "box_points E [] = Inr []"
| "box_points E (p # ps) =
     (case box_point E p of
        Inl e \<Rightarrow> Inl e
      | Inr q \<Rightarrow> (case box_points E ps of Inl e \<Rightarrow> Inl e | Inr qs \<Rightarrow> Inr (q # qs)))"

definition make_block :: "'img env \<Rightarrow> pyval \<Rightarrow> pyexc + OCRBlock" where
  "make_block E item =
     bind_exc (py_getitem item 0) (\<lambda>box.
     bind_exc (py_getitem item 1) (\<lambda>text.
     bind_exc (py_getitem item 2) (\<lambda>confidence.
     bind_exc (py_float E confidence) (\<lambda>c.
     bind_exc (py_iter box) (\<lambda>ps.
     bind_exc (box_points E ps) (\<lambda>pts.
       Inr \<lparr>b_text = text, b_confidence = py_round3 c, b_box = pts\<rparr>))))))"

text \<open>The loop, with its two accumulators \<^verbatim>\<open>blocks\<close> and \<^verbatim>\<open>lines\<close>.\<close>

fun process_loop ::
  "'img env \<Rightarrow> pyval list \<Rightarrow> OCRBlock list \<Rightarrow> pyval list \<Rightarrow> pyexc + (OCRBlock list \<times> pyval list)"
where
  "process_loop E [] blocks lines = Inr (blocks, lines)"
| "process_loop E (item # items) blocks lines =
     (case make_block E item of
        Inl e \<Rightarrow> Inl e
      | Inr block \<Rightarrow> process_loop E items (blocks @ [block]) (lines @ [b_text block]))"

text \<open>
  The body of the \<^verbatim>\<open>try\<close> of \<^verbatim>\<open>process\<close>; \<open>Inl\<close> is an exception leaving it. Each of
  its two \<^verbatim>\<open>logger.info\<close> calls formats the total of the stage times.
\<close>

definition process_try :: "'img env \<Rightarrow> 'img \<Rightarrow> pyexc + OCRResult" where
  "process_try E img =
     bind_exc (detect E img) (\<lambda>(raw_result, elapsed_list).
     bind_exc (if py_bool elapsed_list then py_sum elapsed_list else Inr (PInt 0))
       (\<lambda>total_elapsed.
     if \<not> py_bool raw_result
     then
       bind_exc (py_format_2f total_elapsed) (\<lambda>_.
         Inr \<lparr>r_text = [], r_blocks = [], r_elapsed_seconds = total_elapsed,
              r_error = None\<rparr>)
     else
       bind_exc (py_iter raw_result) (\<lambda>items.
       bind_exc (process_loop E items [] []) (\<lambda>(blocks, lines).
       bind_exc (py_format_2f total_elapsed) (\<lambda>_.
       bind_exc (py_join ''\<newline>'' lines) (\<lambda>joined.
         Inr \<lparr>r_text = joined, r_blocks = blocks, r_elapsed_seconds = total_elapsed,
              r_error = None\<rparr>))))))"

text \<open>\<^verbatim>\<open>OCREngine.process\<close>: the \<^verbatim>\<open>try\<close> and its \<^verbatim>\<open>except Exception as e\<close>.\<close>

definition process :: "'img env \<Rightarrow> 'img \<Rightarrow> OCRResult" where
  "process E img =
     (case process_try E img of
        Inr result \<Rightarrow> result
      | Inl e \<Rightarrow>
          \<lparr>r_text = [], r_blocks = [], r_elapsed_seconds = PInt 0, r_error = Some (exc_str e)\<rparr>)"

section \<open>The request handlers\<close>

text \<open>
  The dictionary every failing step of \<^verbatim>\<open>server.py\<close> returns:
  \<^verbatim>\<open>{"text": "", "blocks": [], "error": msg}\<close>.
\<close>

definition error_response :: "string \<Rightarrow> pyval" where
  "error_response msg = PDict [(''text'', PStr []), (''blocks'', PList []), (''error'', PStr msg)]"

text \<open>
  The end of both handlers, the same lines in each: the conversion to RGB when the mode is
  one of the four named, the call of the engine, \<^verbatim>\<open>result.to_dict()\<close>. An exception of
  \<^verbatim>\<open>convert\<close> leaves for the handler's outer \<^verbatim>\<open>except\<close>.
\<close>

definition convert_and_process :: "'img env \<Rightarrow> 'img \<Rightarrow> pyexc + pyval" where
  "convert_and_process E img =
     bind_exc (if img_mode E img \<in> set [''RGBA'', ''P'', ''LA'', ''L'']
               then convert_rgb E img else Inr img)
       (\<lambda>img'. Inr (to_dict (process E img')))"

text \<open>\<^verbatim>\<open>ocr_from_base64\<close>: after the data URI prefix is gone; the outer \<^verbatim>\<open>try\<close>; the handler.\<close>

definition decode_and_process :: "'img env \<Rightarrow> string \<Rightarrow> pyexc + pyval" where
  "decode_and_process E image_base64 =
     (case b64decode E image_base64 of
        Inl e \<Rightarrow> Inr (error_response (''Invalid base64: '' @ exc_str e))
      | Inr img_bytes \<Rightarrow>
          (case image_open E img_bytes of
             Inl e \<Rightarrow> Inr (error_response (''Invalid image format: '' @ exc_str e))
           | Inr img \<Rightarrow> convert_and_process E img))"

definition ocr_from_base64_try :: "'img env \<Rightarrow> string \<Rightarrow> pyexc + pyval" where
  "ocr_from_base64_try E image_base64 =
     (if startswith image_base64 ''data:''
      then if CHR '','' \<in> set image_base64
           then decode_and_process E (split_once CHR '','' image_base64 ! 1)
           else Inr (error_response ''Invalid data URI format'')
      else decode_and_process E image_base64)"

definition ocr_from_base64 :: "'img env \<Rightarrow> string \<Rightarrow> pyval" where
  "ocr_from_base64 E image_base64 =
     (case ocr_from_base64_try E image_base64 of
        Inr response \<Rightarrow> response
      | Inl e \<Rightarrow> error_response (exc_str e))"

text \<open>\<^verbatim>\<open>ocr_from_path\<close>: the outer \<^verbatim>\<open>try\<close>; the handler.\<close>

definition ocr_from_path_try :: "'img env \<Rightarrow> string \<Rightarrow> pyexc + pyval" where
  "ocr_from_path_try E file_path =
     (if file_path = [] then Inr (error_response ''File path is required'')
      else if \<not> isabs file_path then Inr (error_response ''File path must be absolute'')
      else if \<not> path_exists E file_path
        then Inr (error_response (''File not found: '' @ file_path))
      else if \<not> path_isfile E file_path
        then Inr (error_response (''Not a file: '' @ file_path))
      else
        (case image_open_path E file_path of
           Inl e \<Rightarrow> Inr (error_response (''Failed to open image: '' @ exc_str e))
         | Inr img \<Rightarrow> convert_and_process E img))"

definition ocr_from_path :: "'img env \<Rightarrow> string \<Rightarrow> pyval" where
  "ocr_from_path E file_path =
     (case ocr_from_path_try E file_path of
        Inr response \<Rightarrow> response
      | Inl e \<Rightarrow> error_response (exc_str e))"

section \<open>Notions the properties are stated with\<close>

text \<open>\<^verbatim>\<open>d.get(k)\<close> on a response: the value under a key, \<open>None\<close> when the key is absent.\<close>

fun dict_get :: "pyval \<Rightarrow> string \<Rightarrow> pyval option" where
  "dict_get (PDict kvs) k = map_of kvs k"
| "dict_get v k = None"

text \<open>Numbers, and the real number one denotes.\<close>

fun is_num :: "pyval \<Rightarrow> bool" where
  "is_num (PInt n) = True"
| "is_num (PFloat x) = True"
| "is_num v = False"

fun num_real :: "pyval \<Rightarrow> real" where
  "num_real (PInt n) = of_int n"
| "num_real (PFloat x) = x"
| "num_real v = 0"

text \<open>
  The size of an integer among the stage times. When the sizes add up to less than the
  float limit, every integer that \<^verbatim>\<open>sum\<close> or the format has to convert is in range.
\<close>

fun int_size :: "pyval \<Rightarrow> int" where
  "int_size (PInt n) = \<bar>n\<bar>"
| "int_size v = 0"


text \<open>A text that is a string with no line boundary in it.\<close>

fun one_line :: "pyval \<Rightarrow> bool" where
  "one_line (PStr s) = list_all (\<lambda>c. \<not> is_linebreak c) s"
| "one_line v = False"

text \<open>
  A well-formed response: a dictionary with a string under \<^verbatim>\<open>text\<close> and a list under
  \<^verbatim>\<open>blocks\<close>, and either no \<^verbatim>\<open>error\<close> key, or a string under it, the empty text and
  no blocks.
\<close>

definition well_formed :: "pyval \<Rightarrow> bool" where
  "well_formed resp =
     (case dict_get resp ''text'' of
        Some (PStr t) \<Rightarrow>
          (case dict_get resp ''blocks'' of
             Some (PList bs) \<Rightarrow>
               (case dict_get resp ''error'' of
                  None \<Rightarrow> True
                | Some (PStr m) \<Rightarrow> t = [] \<and> bs = []
                | _ \<Rightarrow> False)
           | _ \<Rightarrow> False)
      | _ \<Rightarrow> False)"

text \<open>
  The string \<^verbatim>\<open>ocr_from_base64\<close> decodes: its argument, or what follows the first comma
  when the argument starts with \<^verbatim>\<open>data:\<close>.
\<close>

definition payload :: "string \<Rightarrow> string" where
  "payload s = (if startswith s ''data:'' then split_once CHR '','' s ! 1 else s)"

section \<open>A sample environment\<close>

text \<open>
  A small world to run the definitions in. An image is its mode and a number standing for
  its content; an image file is two bytes, the first letter of the mode and the content.
  The detector refuses anything but RGB and otherwise answers by content.
\<close>

definition sample_box :: pyval where
  "sample_box =
     PList [PList [PFloat 20, PFloat 15], PList [PFloat 120, PFloat 15],
            PList [PFloat 120, PFloat 40], PList [PFloat 20, PFloat 40]]"

definition sample_detect :: "string \<times> nat \<Rightarrow> pyexc + (pyval \<times> pyval)" where
  "sample_detect img =
     (if fst img \<noteq> ''RGB'' then Inl (PyExc ''ValueError'' ''unsupported image mode'')
      else if snd img = 0 then Inr (PNone, PList [PFloat (1/4), PFloat (1/2)])
      else if snd img = 1 then
        Inr (PList [PList [sample_box, PStr ''Hello'', PFloat (98765/100000)],
                    PTuple [sample_box, PStr ''World'', PInt 1]],
             PList [PFloat (1/4), PFloat (1/2), PInt 1])
      else if snd img = 2 then
        Inr (PList [PList [sample_box, PStr ''a\<newline>b'', PFloat (9/10)]], PNone)
      else if snd img = 4 then Inl (PyExc ''AssertionError'' [])
      else if snd img = 5 then Inr (PList [PNone], PNone)
      else Inl (PyExc ''RuntimeError'' ''inference failed''))"

definition sample_b64decode :: "string \<Rightarrow> pyexc + bytes" where
  "sample_b64decode s =
     (case map_of [(''UgA='', [82, 0]), (''UgE='', [82, 1]), (''UgQ='', [82, 4]),
                   (''QQE='', [65, 1]), (''UAE='', [80, 1]), (''UAc='', [80, 7]),
                   (''AAA='', [0, 0])] s of
        Some b \<Rightarrow> Inr b
      | None \<Rightarrow> Inl (PyExc ''Error'' ''Incorrect padding''))"

definition sample_image_open :: "bytes \<Rightarrow> pyexc + (string \<times> nat)" where
  "sample_image_open b =
     (if length b = 2 \<and> b ! 0 = 82 then Inr (''RGB'', b ! 1)
      else if length b = 2 \<and> b ! 0 = 65 then Inr (''RGBA'', b ! 1)
      else if length b = 2 \<and> b ! 0 = 80 then Inr (''P'', b ! 1)
      else Inl (PyExc ''UnidentifiedImageError'' ''cannot identify image file''))"

definition sample_env :: "(string \<times> nat) env" where
  "sample_env =
     \<lparr>detect = sample_detect,
      float_of_str = (\<lambda>s. Inl (PyExc ''ValueError''
                        (''could not convert string to float: '' @ quoted s))),
      b64decode = sample_b64decode,
      image_open = sample_image_open,
      image_open_path = (\<lambda>p. if p = ''/data/scan.png'' then Inr (''RGB'', 1)
                        else if p = ''/data/icon.png'' then Inr (''P'', 1)
                        else Inl (PyExc ''UnidentifiedImageError''
                                    ''cannot identify image file'')),
      img_mode = fst,
      convert_rgb = (\<lambda>img. if snd img = 7 then Inl (PyExc ''OSError'' ''image file is truncated'')
                        else Inr (''RGB'', snd img)),
      path_exists = (\<lambda>p. p = ''/data/scan.png'' \<or> p = ''/data/icon.png'' \<or> p = ''/data''
                        \<or> p = ''/data/notes.txt''),
      path_isfile = (\<lambda>p. p = ''/data/scan.png'' \<or> p = ''/data/icon.png''
                        \<or> p = ''/data/notes.txt'')\<rparr>"

section \<open>The sample environment, evaluated\<close>

lemma process_try_no_error: "process_try E img = Inr r \<Longrightarrow> r_error r = None"
  by (auto simp: process_try_def bind_exc_def split: sum.splits prod.splits if_splits)

lemma float_limit_large: "1000000 < float_limit"
  by (simp add: float_limit_def)

lemma int_to_float_small: "\<bar>n\<bar> \<le> 1000000 \<Longrightarrow> int_to_float n = Inr (of_int n)"
  using float_limit_large by (simp add: int_to_float_def)

lemmas sample_eval =
  process_def process_try_def sample_env_def sample_detect_def bind_exc_def py_sum_def
  py_add_def make_block_def box_point_def sample_box_def py_join_def py_round3_def Let_def
  quoted_def py_format_2f_def int_to_float_small

lemma sample_process_0:
  "process sample_env (''RGB'', 0) =
     \<lparr>r_text = [], r_blocks = [], r_elapsed_seconds = PFloat (3/4), r_error = None\<rparr>"
  by (simp add: sample_eval)

lemma sample_process_1:
  "process sample_env (''RGB'', 1) =
     \<lparr>r_text = ''Hello\<newline>World'',
      r_blocks = [\<lparr>b_text = PStr ''Hello'', b_confidence = 988/1000,
                    b_box = [[20, 15], [120, 15], [120, 40], [20, 40]]\<rparr>,
                  \<lparr>b_text = PStr ''World'', b_confidence = 1,
                    b_box = [[20, 15], [120, 15], [120, 40], [20, 40]]\<rparr>],
      r_elapsed_seconds = PFloat (7/4), r_error = None\<rparr>"
  by (simp add: sample_eval)

lemma sample_process_2:
  "process sample_env (''RGB'', 2) =
     \<lparr>r_text = ''a\<newline>b'',
      r_blocks = [\<lparr>b_text = PStr ''a\<newline>b'', b_confidence = 9/10,
                    b_box = [[20, 15], [120, 15], [120, 40], [20, 40]]\<rparr>],
      r_elapsed_seconds = PInt 0, r_error = None\<rparr>"
  by (simp add: sample_eval)

lemma sample_process_4:
  "process sample_env (''RGB'', 4) =
     \<lparr>r_text = [], r_blocks = [], r_elapsed_seconds = PInt 0, r_error = Some []\<rparr>"
  by (simp add: sample_eval)

lemma sample_process_P:
  "process sample_env (''P'', 1) =
     \<lparr>r_text = [], r_blocks = [], r_elapsed_seconds = PInt 0,
      r_error = Some ''unsupported image mode''\<rparr>"
  by (simp add: sample_eval)

section \<open>The engine never raises\<close>

lemma process_loop_fails:
  "item \<in> set items \<Longrightarrow> make_block E item = Inl e' \<Longrightarrow> \<exists>e. process_loop E items bs ls = Inl e"
  by (induction items arbitrary: bs ls) (auto split: sum.splits)

lemma process_caught:
  "process_try E img = Inl e \<Longrightarrow>
     process E img =
       \<lparr>r_text = [], r_blocks = [], r_elapsed_seconds = PInt 0, r_error = Some (exc_str e)\<rparr>"
  by (simp add: process_def)

lemma process_try_structuring:
  assumes "detect E img = Inr (raw, el)" "py_bool raw" "py_iter raw = Inr items"
    and "item \<in> set items" "make_block E item = Inl e'"
  shows "\<exists>e. process_try E img = Inl e"
proof -
  obtain e where "process_loop E items [] [] = Inl e"
    using process_loop_fails [OF assms(4,5)] by blast
  then show ?thesis
    using assms(1-3) by (auto simp: process_try_def bind_exc_def split: sum.splits)
qed

text \<open>
  Claim C1. \<^verbatim>\<open>process\<close> propagates no exception. Whatever exception leaves the body of
  its \<^verbatim>\<open>try\<close>, be it raised by the detector or while the raw detections are turned
  into blocks, the result has the empty text, no blocks, 0 elapsed seconds and the
  exception's message in its error field. So a result of \<^verbatim>\<open>process\<close> whose error field is
  set has the empty text and no blocks.
\<close>

theorem process_never_raises:
  "(process_try E img = Inl e \<longrightarrow>
      process E img =
        \<lparr>r_text = [], r_blocks = [], r_elapsed_seconds = PInt 0, r_error = Some (exc_str e)\<rparr>)
   \<and> (detect E img = Inl e \<longrightarrow>
      process E img =
        \<lparr>r_text = [], r_blocks = [], r_elapsed_seconds = PInt 0, r_error = Some (exc_str e)\<rparr>)
   \<and> (detect E img = Inr (raw, el) \<and> py_bool raw \<and> py_iter raw = Inr items
        \<and> item \<in> set items \<and> make_block E item = Inl e' \<longrightarrow>
      (\<exists>m. process E img =
        \<lparr>r_text = [], r_blocks = [], r_elapsed_seconds = PInt 0, r_error = Some m\<rparr>))
   \<and> (r_error (process E img) \<noteq> None \<longrightarrow>
        r_text (process E img) = [] \<and> r_blocks (process E img) = [])"
proof (intro conjI impI)
  assume "process_try E img = Inl e"
  then show "process E img =
    \<lparr>r_text = [], r_blocks = [], r_elapsed_seconds = PInt 0, r_error = Some (exc_str e)\<rparr>"
    by (rule process_caught)
next
  assume "detect E img = Inl e"
  then have "process_try E img = Inl e"
    by (simp add: process_try_def bind_exc_def)
  then show "process E img =
    \<lparr>r_text = [], r_blocks = [], r_elapsed_seconds = PInt 0, r_error = Some (exc_str e)\<rparr>"
    by (rule process_caught)
next
  assume "detect E img = Inr (raw, el) \<and> py_bool raw \<and> py_iter raw = Inr items
        \<and> item \<in> set items \<and> make_block E item = Inl e'"
  then have "detect E img = Inr (raw, el)" "py_bool raw" "py_iter raw = Inr items"
    "item \<in> set items" "make_block E item = Inl e'"
    by simp_all
  from process_try_structuring [OF this] obtain e where "process_try E img = Inl e" ..
  then show "\<exists>m. process E img =
        \<lparr>r_text = [], r_blocks = [], r_elapsed_seconds = PInt 0, r_error = Some m\<rparr>"
    by (simp add: process_def)
next
  assume err: "r_error (process E img) \<noteq> None"
  show "r_text (process E img) = []"
    using err process_try_no_error [of E img]
    by (auto simp: process_def split: sum.splits)
next
  assume err: "r_error (process E img) \<noteq> None"
  show "r_blocks (process E img) = []"
    using err process_try_no_error [of E img]
    by (auto simp: process_def split: sum.splits)
qed

theorem process_never_raises_witness:
  "detect sample_env (''RGB'', 6) = Inl (PyExc ''RuntimeError'' ''inference failed'')
   \<and> process_try sample_env (''RGB'', 6) = Inl (PyExc ''RuntimeError'' ''inference failed'')
   \<and> process sample_env (''RGB'', 6) =
        \<lparr>r_text = [], r_blocks = [], r_elapsed_seconds = PInt 0,
         r_error = Some ''inference failed''\<rparr>
   \<and> r_error (process sample_env (''RGB'', 6)) \<noteq> None
   \<and> r_text (process sample_env (''RGB'', 6)) = []
   \<and> r_blocks (process sample_env (''RGB'', 6)) = []
   \<and> detect sample_env (''RGB'', 5) = Inr (PList [PNone], PNone)
   \<and> py_bool (PList [PNone]) \<and> py_iter (PList [PNone]) = Inr [PNone] \<and> PNone \<in> set [PNone]
   \<and> make_block sample_env PNone =
        Inl (PyExc ''TypeError'' (quoted ''NoneType'' @ '' object is not subscriptable''))
   \<and> (\<exists>m. process sample_env (''RGB'', 5) =
        \<lparr>r_text = [], r_blocks = [], r_elapsed_seconds = PInt 0, r_error = Some m\<rparr>)"
proof -
  have d6: "detect sample_env (''RGB'', 6) = Inl (PyExc ''RuntimeError'' ''inference failed'')"
    by (simp add: sample_env_def sample_detect_def)
  have t6: "process_try sample_env (''RGB'', 6) = Inl (PyExc ''RuntimeError'' ''inference failed'')"
    by (simp add: process_try_def bind_exc_def d6)
  have d5: "detect sample_env (''RGB'', 5) = Inr (PList [PNone], PNone)"
    by (simp add: sample_env_def sample_detect_def)
  have m5: "make_block sample_env PNone =
        Inl (PyExc ''TypeError'' (quoted ''NoneType'' @ '' object is not subscriptable''))"
    by (simp add: make_block_def bind_exc_def)
  note a = process_never_raises [of sample_env "(''RGB'', 6)" "PyExc ''RuntimeError'' ''inference failed''"]
  note b = process_never_raises [of sample_env "(''RGB'', 5)" _ "PList [PNone]" PNone "[PNone]" PNone
    "PyExc ''TypeError'' (quoted ''NoneType'' @ '' object is not subscriptable'')"]
  show ?thesis
    using a b d6 t6 d5 m5 by simp
qed


section \<open>Text and blocks of a result\<close>

lemma process_loop_blocks:
  "process_loop E items bs ls = Inr (bs', ls') \<Longrightarrow>
     \<exists>new. bs' = bs @ new \<and> ls' = ls @ map b_text new
          \<and> list_all2 (\<lambda>item b. make_block E item = Inr b) items new"
proof (induction items arbitrary: bs ls)
  case Nil
  then show ?case by simp
next
  case (Cons item items)
  from Cons.prems obtain b where b: "make_block E item = Inr b"
    and rest: "process_loop E items (bs @ [b]) (ls @ [b_text b]) = Inr (bs', ls')"
    by (auto split: sum.splits)
  from Cons.IH [OF rest] obtain new where
    "bs' = (bs @ [b]) @ new" "ls' = (ls @ [b_text b]) @ map b_text new"
    "list_all2 (\<lambda>item b. make_block E item = Inr b) items new"
    by blast
  then have "bs' = bs @ (b # new) \<and> ls' = ls @ map b_text (b # new)
      \<and> list_all2 (\<lambda>item b. make_block E item = Inr b) (item # items) (b # new)"
    using b by simp
  then show ?case by blast
qed

lemma strs_from_strings: "strs_from i vs = Inr ss \<Longrightarrow> vs = map PStr ss"
  by (induction i vs arbitrary: ss rule: strs_from.induct) (auto split: sum.splits)

lemma py_join_strings:
  "py_join sep vs = Inr t \<Longrightarrow> \<exists>ss. vs = map PStr ss \<and> t = join_str sep ss"
  by (auto simp: py_join_def bind_exc_def split: sum.splits dest: strs_from_strings)

lemma process_try_empty:
  assumes "process_try E img = Inr r" "detect E img = Inr (raw, el)" "\<not> py_bool raw"
  shows "r_text r = [] \<and> r_blocks r = []"
  using assms by (auto simp: process_try_def bind_exc_def split: sum.splits if_splits)

lemma process_try_blocks:
  assumes "process_try E img = Inr r" "detect E img = Inr (raw, el)" "py_bool raw"
  shows "\<exists>items. py_iter raw = Inr items
            \<and> list_all2 (\<lambda>item b. make_block E item = Inr b) items (r_blocks r)
            \<and> (\<exists>ss. map b_text (r_blocks r) = map PStr ss \<and> r_text r = join_str ''\<newline>'' ss)"
proof -
  from assms obtain total items blocks lines joined where
    it: "py_iter raw = Inr items"
    and lp: "process_loop E items [] [] = Inr (blocks, lines)"
    and jn: "py_join ''\<newline>'' lines = Inr joined"
    and r: "r = \<lparr>r_text = joined, r_blocks = blocks, r_elapsed_seconds = total, r_error = None\<rparr>"
    by (auto simp: process_try_def bind_exc_def split: sum.splits if_splits)
  from process_loop_blocks [OF lp] have
    l: "lines = map b_text blocks"
    and a: "list_all2 (\<lambda>item b. make_block E item = Inr b) items blocks"
    by auto
  from py_join_strings [OF jn] l obtain ss where
    "map b_text blocks = map PStr ss" "joined = join_str ''\<newline>'' ss"
    by auto
  with it a r show ?thesis by auto
qed

lemma process_try_joined:
  assumes "process_try E img = Inr r"
  shows "\<exists>ss. map b_text (r_blocks r) = map PStr ss \<and> r_text r = join_str ''\<newline>'' ss"
proof -
  from assms obtain raw el where d: "detect E img = Inr (raw, el)"
    by (auto simp: process_try_def bind_exc_def split: sum.splits)
  show ?thesis
  proof (cases "py_bool raw")
    case False
    from process_try_empty [OF assms d False] show ?thesis by simp
  next
    case True
    from process_try_blocks [OF assms d True] show ?thesis by blast
  qed
qed

lemma process_joined:
  "\<exists>ss. map b_text (r_blocks (process E img)) = map PStr ss
     \<and> r_text (process E img) = join_str ''\<newline>'' ss"
proof (cases "process_try E img")
  case (Inl e)
  then show ?thesis by (simp add: process_def)
next
  case (Inr r)
  with process_try_joined [OF Inr] show ?thesis by (simp add: process_def)
qed

lemma process_Inr:
  "r_error (process E img) = None \<Longrightarrow> process_try E img = Inr (process E img)"
  by (cases "process_try E img") (simp_all add: process_def)

lemma make_block_text: "make_block E item = Inr b \<Longrightarrow> py_getitem item 1 = Inr (b_text b)"
  by (auto simp: make_block_def bind_exc_def split: sum.splits)

text \<open>
  Claim C2. The text of a result of \<^verbatim>\<open>process\<close> is the texts of its blocks, all of them
  strings, joined by newlines in the order of the blocks, and the empty string when there
  is no block. When the detector returned a non-empty list of raw detections and no
  exception was caught, the blocks are the raw detections in the detector's order: block
  by block made from the detection at the same position, with that detection's text.
\<close>

theorem process_text_joins_blocks:
  "(\<exists>ss. map b_text (r_blocks (process E img)) = map PStr ss
        \<and> r_text (process E img) = join_str ''\<newline>'' ss)
   \<and> (r_blocks (process E img) = [] \<longrightarrow> r_text (process E img) = [])
   \<and> (detect E img = Inr (raw, el) \<and> py_bool raw \<and> r_error (process E img) = None \<longrightarrow>
        (\<exists>items. py_iter raw = Inr items
           \<and> list_all2 (\<lambda>item b. make_block E item = Inr b \<and> py_getitem item 1 = Inr (b_text b))
                items (r_blocks (process E img))))"
proof (intro conjI impI)
  show "\<exists>ss. map b_text (r_blocks (process E img)) = map PStr ss
        \<and> r_text (process E img) = join_str ''\<newline>'' ss"
    by (rule process_joined)
next
  assume "r_blocks (process E img) = []"
  with process_joined [of E img] show "r_text (process E img) = []" by auto
next
  assume a: "detect E img = Inr (raw, el) \<and> py_bool raw \<and> r_error (process E img) = None"
  then have t: "process_try E img = Inr (process E img)" by (simp add: process_Inr)
  from a have d: "detect E img = Inr (raw, el)" and p: "py_bool raw" by simp_all
  from process_try_blocks [OF t d p] obtain items where
    it: "py_iter raw = Inr items"
    and l: "list_all2 (\<lambda>item b. make_block E item = Inr b) items (r_blocks (process E img))"
    by blast
  from l have "list_all2 (\<lambda>item b. make_block E item = Inr b \<and> py_getitem item 1 = Inr (b_text b))
                items (r_blocks (process E img))"
    by (rule list_all2_mono) (auto dest: make_block_text)
  with it show "\<exists>items. py_iter raw = Inr items
           \<and> list_all2 (\<lambda>item b. make_block E item = Inr b \<and> py_getitem item 1 = Inr (b_text b))
                items (r_blocks (process E img))"
    by blast
qed

theorem process_text_joins_blocks_witness:
  "detect sample_env (''RGB'', 1) =
     Inr (PList [PList [sample_box, PStr ''Hello'', PFloat (98765/100000)],
                 PTuple [sample_box, PStr ''World'', PInt 1]],
          PList [PFloat (1/4), PFloat (1/2), PInt 1])
   \<and> r_error (process sample_env (''RGB'', 1)) = None
   \<and> r_text (process sample_env (''RGB'', 1)) = ''Hello\<newline>World''
   \<and> map b_text (r_blocks (process sample_env (''RGB'', 1))) = [PStr ''Hello'', PStr ''World'']
   \<and> (\<exists>ss. map b_text (r_blocks (process sample_env (''RGB'', 1))) = map PStr ss
        \<and> r_text (process sample_env (''RGB'', 1)) = join_str ''\<newline>'' ss)
   \<and> (\<exists>items. py_iter (PList [PList [sample_box, PStr ''Hello'', PFloat (98765/100000)],
                 PTuple [sample_box, PStr ''World'', PInt 1]]) = Inr items
           \<and> list_all2 (\<lambda>item b. make_block sample_env item = Inr b
                  \<and> py_getitem item 1 = Inr (b_text b))
                items (r_blocks (process sample_env (''RGB'', 1))))
   \<and> r_blocks (process sample_env (''RGB'', 0)) = []
   \<and> r_text (process sample_env (''RGB'', 0)) = []"
proof -
  have d: "detect sample_env (''RGB'', 1) =
     Inr (PList [PList [sample_box, PStr ''Hello'', PFloat (98765/100000)],
                 PTuple [sample_box, PStr ''World'', PInt 1]],
          PList [PFloat (1/4), PFloat (1/2), PInt 1])"
    by (simp add: sample_env_def sample_detect_def)
  have p: "process sample_env (''RGB'', 1) =
     \<lparr>r_text = ''Hello\<newline>World'',
      r_blocks = [\<lparr>b_text = PStr ''Hello'', b_confidence = 988/1000,
                    b_box = [[20, 15], [120, 15], [120, 40], [20, 40]]\<rparr>,
                  \<lparr>b_text = PStr ''World'', b_confidence = 1,
                    b_box = [[20, 15], [120, 15], [120, 40], [20, 40]]\<rparr>],
      r_elapsed_seconds = PFloat (7/4), r_error = None\<rparr>"
    by (simp add: sample_eval)
  have e: "r_error (process sample_env (''RGB'', 1)) = None"
    and t: "r_text (process sample_env (''RGB'', 1)) = ''Hello\<newline>World''"
    and b: "map b_text (r_blocks (process sample_env (''RGB'', 1))) = [PStr ''Hello'', PStr ''World'']"
    using p by simp_all
  have z: "r_blocks (process sample_env (''RGB'', 0)) = []"
    by (simp add: sample_eval)
  note w1 = process_text_joins_blocks [of sample_env "(''RGB'', 1)"
    "PList [PList [sample_box, PStr ''Hello'', PFloat (98765/100000)],
            PTuple [sample_box, PStr ''World'', PInt 1]]"
    "PList [PFloat (1/4), PFloat (1/2), PInt 1]"]
  note w0 = process_text_joins_blocks [of sample_env "(''RGB'', 0)"]
  from w1 d e have c3: "\<exists>items. py_iter (PList [PList [sample_box, PStr ''Hello'', PFloat (98765/100000)],
                 PTuple [sample_box, PStr ''World'', PInt 1]]) = Inr items
           \<and> list_all2 (\<lambda>item b. make_block sample_env item = Inr b
                  \<and> py_getitem item 1 = Inr (b_text b))
                items (r_blocks (process sample_env (''RGB'', 1)))"
    by simp
  from w1 have c1: "\<exists>ss. map b_text (r_blocks (process sample_env (''RGB'', 1))) = map PStr ss
        \<and> r_text (process sample_env (''RGB'', 1)) = join_str ''\<newline>'' ss"
    by blast
  from w0 z have c0: "r_text (process sample_env (''RGB'', 0)) = []" by blast
  from d e t b c1 c3 z c0 show ?thesis by blast
qed


section \<open>Nothing found\<close>

lemma int_size_nonneg: "0 \<le> int_size v"
  by (cases v) simp_all

lemma py_add_nums:
  assumes "is_num a" "is_num b" "int_size a + int_size b < float_limit"
  shows "\<exists>v. py_add a b = Inr v \<and> is_num v \<and> num_real v = num_real a + num_real b
           \<and> int_size v \<le> int_size a + int_size b"
  using assms
  by (cases a; cases b) (simp_all add: py_add_def int_to_float_def bind_exc_def)

lemma sum_from_nums:
  "is_num acc \<Longrightarrow> list_all is_num xs \<Longrightarrow>
   int_size acc + sum_list (map int_size xs) < float_limit \<Longrightarrow>
     \<exists>v. sum_from acc xs = Inr v \<and> is_num v
       \<and> num_real v = num_real acc + sum_list (map num_real xs)
       \<and> int_size v < float_limit"
proof (induction xs arbitrary: acc)
  case Nil
  then show ?case by simp
next
  case (Cons x xs)
  have rest: "0 \<le> sum_list (map int_size xs)"
    by (rule sum_list_nonneg) (auto simp: int_size_nonneg)
  from Cons.prems have x: "is_num x" and xs: "list_all is_num xs"
    and b: "int_size acc + int_size x + sum_list (map int_size xs) < float_limit"
    by simp_all
  from b rest have "int_size acc + int_size x < float_limit" by linarith
  from py_add_nums [OF Cons.prems(1) x this] obtain a where
    a: "py_add acc x = Inr a" "is_num a" "num_real a = num_real acc + num_real x"
       "int_size a \<le> int_size acc + int_size x"
    by blast
  from a(4) b have "int_size a + sum_list (map int_size xs) < float_limit" by linarith
  from Cons.IH [OF a(2) xs this] obtain v where
    "sum_from a xs = Inr v" "is_num v" "num_real v = num_real a + sum_list (map num_real xs)"
    "int_size v < float_limit"
    by blast
  with a show ?case by simp
qed

lemma py_format_2f_num: "is_num v \<Longrightarrow> int_size v < float_limit \<Longrightarrow> py_format_2f v = Inr ()"
  by (cases v) (simp_all add: py_format_2f_def int_to_float_def bind_exc_def)

lemma total_elapsed_nums:
  assumes "el = PNone \<and> ts = [] \<or>
           el = PList ts \<and> list_all is_num ts \<and> sum_list (map int_size ts) < float_limit"
  shows "\<exists>v. (if py_bool el then py_sum el else Inr (PInt 0)) = Inr v \<and> is_num v
           \<and> num_real v = sum_list (map num_real ts) \<and> (ts = [] \<longrightarrow> v = PInt 0)
           \<and> py_format_2f v = Inr ()"
proof (cases "ts = []")
  case True
  have "py_format_2f (PInt 0) = Inr ()"
    using float_limit_large by (simp add: py_format_2f_num)
  with True assms show ?thesis by auto
next
  case False
  with assms have el: "el = PList ts" and n: "list_all is_num ts"
    and b: "sum_list (map int_size ts) < float_limit"
    by auto
  from sum_from_nums [of "PInt 0" ts] n b obtain v where
    v: "sum_from (PInt 0) ts = Inr v" "is_num v" "num_real v = sum_list (map num_real ts)"
       "int_size v < float_limit"
    by auto
  from py_format_2f_num [OF v(2,4)] v el False show ?thesis
    by (simp add: py_sum_def bind_exc_def)
qed

text \<open>
  Claim C5. When the detector returns \<^verbatim>\<open>None\<close> or the empty list as its raw detections,
  and its stage times are \<^verbatim>\<open>None\<close> or a list of numbers (floats, and integers whose sizes
  add up to less than the float limit, so that none of them overflows when it is added to
  a float or formatted for the log), the result of \<^verbatim>\<open>process\<close> has the empty text, no
  blocks and no error, and its elapsed seconds are the sum of the stage times: the integer
  0 when there are none.
\<close>

theorem process_no_text_found:
  assumes "detect E img = Inr (raw, el)"
    and "raw = PNone \<or> raw = PList []"
    and "el = PNone \<and> ts = [] \<or>
         el = PList ts \<and> list_all is_num ts \<and> sum_list (map int_size ts) < float_limit"
  shows "r_text (process E img) = [] \<and> r_blocks (process E img) = []
    \<and> r_error (process E img) = None
    \<and> is_num (r_elapsed_seconds (process E img))
    \<and> num_real (r_elapsed_seconds (process E img)) = sum_list (map num_real ts)
    \<and> (ts = [] \<longrightarrow> r_elapsed_seconds (process E img) = PInt 0)"
proof -
  from total_elapsed_nums [OF assms(3)] obtain v where
    v: "(if py_bool el then py_sum el else Inr (PInt 0)) = Inr v" "is_num v"
       "num_real v = sum_list (map num_real ts)" "ts = [] \<longrightarrow> v = PInt 0"
       "py_format_2f v = Inr ()"
    by blast
  from assms(2) have f: "\<not> py_bool raw" by auto
  have "process_try E img =
      Inr \<lparr>r_text = [], r_blocks = [], r_elapsed_seconds = v, r_error = None\<rparr>"
    using assms(1) f v(1,5) by (simp add: process_try_def bind_exc_def)
  then have "process E img =
      \<lparr>r_text = [], r_blocks = [], r_elapsed_seconds = v, r_error = None\<rparr>"
    by (simp add: process_def)
  with v show ?thesis by simp
qed

theorem process_no_text_found_witness:
  "detect sample_env (''RGB'', 0) = Inr (PNone, PList [PFloat (1/4), PFloat (1/2)])
   \<and> list_all is_num [PFloat (1/4), PFloat (1/2)]
   \<and> sum_list (map int_size [PFloat (1/4), PFloat (1/2)]) < float_limit
   \<and> r_text (process sample_env (''RGB'', 0)) = []
   \<and> r_blocks (process sample_env (''RGB'', 0)) = []
   \<and> r_error (process sample_env (''RGB'', 0)) = None
   \<and> num_real (r_elapsed_seconds (process sample_env (''RGB'', 0))) = 3/4"
proof -
  have d: "detect sample_env (''RGB'', 0) = Inr (PNone, PList [PFloat (1/4), PFloat (1/2)])"
    by (simp add: sample_env_def sample_detect_def)
  have n: "list_all is_num [PFloat (1/4), PFloat (1/2)]" by simp
  have b: "sum_list (map int_size [PFloat (1/4), PFloat (1/2)]) < float_limit"
    using float_limit_large by simp
  from process_no_text_found [OF d, of "[PFloat (1/4), PFloat (1/2)]"] n b d
  show ?thesis by simp
qed


section \<open>Boxes and confidences\<close>














section \<open>Lines of the text\<close>

lemma splitlines_from_plain:
  "list_all (\<lambda>c. \<not> is_linebreak c) t \<Longrightarrow>
     splitlines_from cur (t @ rest) = splitlines_from (cur @ t) rest"
proof (induction t arbitrary: cur)
  case Nil
  then show ?case by simp
next
  case (Cons c t)
  then have c: "\<not> is_linebreak c" and t: "list_all (\<lambda>c. \<not> is_linebreak c) t"
    by simp_all
  from c have "c \<noteq> CHR 0x0D" by (auto simp: is_linebreak_def)
  with c Cons.IH [OF t, of "cur @ [c]"] show ?case by simp
qed

lemma splitlines_from_newline:
  "splitlines_from cur (''\<newline>'' @ rest) = cur # splitlines_from [] rest"
  by (simp add: is_linebreak_def)

lemma splitlines_from_join:
  "list_all (list_all (\<lambda>c. \<not> is_linebreak c)) ts \<Longrightarrow> ts \<noteq> [] \<Longrightarrow>
     length (splitlines_from cur (join_str ''\<newline>'' ts)) \<le> length ts"
proof (induction ts arbitrary: cur)
  case Nil
  then show ?case by simp
next
  case (Cons s ts)
  note plain = splitlines_from_plain
  show ?case
  proof (cases ts)
    case Nil
    from Cons.prems have "list_all (\<lambda>c. \<not> is_linebreak c) s" by simp
    from plain [OF this, of cur "[]"] Nil show ?thesis
      by simp
  next
    case (Cons t us)
    from Cons.prems have s: "list_all (\<lambda>c. \<not> is_linebreak c) s"
      and r: "list_all (list_all (\<lambda>c. \<not> is_linebreak c)) ts"
      by simp_all
    have ne: "ts \<noteq> []" using Cons by simp
    have "splitlines_from cur (join_str ''\<newline>'' (s # ts))
        = splitlines_from cur (s @ (''\<newline>'' @ join_str ''\<newline>'' ts))"
      using Cons by simp
    also have "\<dots> = splitlines_from (cur @ s) (''\<newline>'' @ join_str ''\<newline>'' ts)"
      by (rule plain [OF s])
    also have "\<dots> = (cur @ s) # splitlines_from [] (join_str ''\<newline>'' ts)"
      by (rule splitlines_from_newline)
    finally have "length (splitlines_from cur (join_str ''\<newline>'' (s # ts)))
        = Suc (length (splitlines_from [] (join_str ''\<newline>'' ts)))"
      by simp
    with Cons.IH [OF r ne, of "[]"] show ?thesis by simp
  qed
qed

lemma splitlines_join:
  assumes "list_all (list_all (\<lambda>c. \<not> is_linebreak c)) ts"
  shows "length (splitlines (join_str ''\<newline>'' ts)) \<le> length ts"
proof (cases "ts = []")
  case True
  then show ?thesis by (simp add: splitlines_def)
next
  case False
  from splitlines_from_join [OF assms False] show ?thesis by (simp add: splitlines_def)
qed

lemma one_line_strings:
  "map b_text bs = map PStr ss \<Longrightarrow> list_all (\<lambda>b. one_line (b_text b)) bs \<Longrightarrow>
     list_all (list_all (\<lambda>c. \<not> is_linebreak c)) ss"
proof (induction bs arbitrary: ss)
  case Nil
  then show ?case by simp
next
  case (Cons b bs)
  then obtain s ss' where "ss = s # ss'" "b_text b = PStr s" "map b_text bs = map PStr ss'"
    by (cases ss) auto
  with Cons show ?case by simp
qed

text \<open>
  Claim C9, as the code has it. When no block's text contains a line boundary, the text
  of a result of \<^verbatim>\<open>process\<close> splits into at most as many lines as the result has blocks.
\<close>

theorem splitlines_at_most_blocks:
  assumes "list_all (\<lambda>b. one_line (b_text b)) (r_blocks (process E img))"
  shows "length (splitlines (r_text (process E img))) \<le> length (r_blocks (process E img))"
proof -
  from process_joined [of E img] obtain ss where
    m: "map b_text (r_blocks (process E img)) = map PStr ss"
    and t: "r_text (process E img) = join_str ''\<newline>'' ss"
    by blast
  from m have "length (r_blocks (process E img)) = length ss"
    using length_map by metis
  moreover from splitlines_join [OF one_line_strings [OF m assms]]
  have "length (splitlines (join_str ''\<newline>'' ss)) \<le> length ss" .
  ultimately show ?thesis by (simp add: t)
qed

theorem splitlines_at_most_blocks_witness:
  "list_all (\<lambda>b. one_line (b_text b)) (r_blocks (process sample_env (''RGB'', 1)))
   \<and> splitlines (r_text (process sample_env (''RGB'', 1))) = [''Hello'', ''World'']
   \<and> length (r_blocks (process sample_env (''RGB'', 1))) = 2
   \<and> length (splitlines (r_text (process sample_env (''RGB'', 1))))
        \<le> length (r_blocks (process sample_env (''RGB'', 1)))"
proof -
  have a: "list_all (\<lambda>b. one_line (b_text b)) (r_blocks (process sample_env (''RGB'', 1)))"
    using sample_process_1 by (simp add: is_linebreak_def)
  have b: "splitlines (r_text (process sample_env (''RGB'', 1))) = [''Hello'', ''World'']"
    using sample_process_1 by (simp add: splitlines_def is_linebreak_def)
  have c: "length (r_blocks (process sample_env (''RGB'', 1))) = 2"
    using sample_process_1 by simp
  from splitlines_at_most_blocks [OF a] a b c show ?thesis by blast
qed

text \<open>
  The engine carries a detection's text through unchanged. One detection whose text holds
  a newline gives one block and a text of two lines.
\<close>

theorem splitlines_counterexample:
  "r_error (process sample_env (''RGB'', 2)) = None
   \<and> r_text (process sample_env (''RGB'', 2)) = ''a\<newline>b''
   \<and> splitlines (r_text (process sample_env (''RGB'', 2))) = [''a'', ''b'']
   \<and> length (r_blocks (process sample_env (''RGB'', 2))) = 1
   \<and> \<not> length (splitlines (r_text (process sample_env (''RGB'', 2))))
        \<le> length (r_blocks (process sample_env (''RGB'', 2)))"
  by (simp add: sample_process_2 splitlines_def is_linebreak_def)


section \<open>Responses\<close>

lemma to_dict_text: "dict_get (to_dict r) ''text'' = Some (PStr (r_text r))"
  by (simp add: to_dict_def Let_def split: option.splits)

lemma to_dict_blocks:
  "dict_get (to_dict r) ''blocks'' = Some (PList (map block_dict (r_blocks r)))"
  by (simp add: to_dict_def Let_def split: option.splits)

lemma to_dict_error:
  "dict_get (to_dict r) ''error'' =
     (case r_error r of None \<Rightarrow> None | Some m \<Rightarrow> if m \<noteq> [] then Some (PStr m) else None)"
  by (simp add: to_dict_def Let_def split: option.splits)

lemma process_error_empty:
  "r_error (process E img) = Some m \<Longrightarrow> r_text (process E img) = [] \<and> r_blocks (process E img) = []"
  using process_try_no_error [of E img]
  by (auto simp: process_def split: sum.splits)

lemma well_formed_to_dict_process: "well_formed (to_dict (process E img))"
proof (cases "r_error (process E img)")
  case None
  then show ?thesis
    by (simp add: well_formed_def to_dict_text to_dict_blocks to_dict_error)
next
  case (Some m)
  with process_error_empty [OF Some] show ?thesis
    by (simp add: well_formed_def to_dict_text to_dict_blocks to_dict_error)
qed

lemma well_formed_error_response: "well_formed (error_response m)"
  by (simp add: well_formed_def error_response_def)

lemma convert_and_process_cases:
  "convert_and_process E img =
     (if img_mode E img \<in> set [''RGBA'', ''P'', ''LA'', ''L'']
      then (case convert_rgb E img of
              Inl e \<Rightarrow> Inl e
            | Inr img' \<Rightarrow> Inr (to_dict (process E img')))
      else Inr (to_dict (process E img)))"
  by (simp add: convert_and_process_def bind_exc_def split: sum.splits)

lemma well_formed_convert_and_process:
  "well_formed (case convert_and_process E img of Inr resp \<Rightarrow> resp
                | Inl e \<Rightarrow> error_response (exc_str e))"
  unfolding convert_and_process_cases
  by (simp add: well_formed_to_dict_process well_formed_error_response split: sum.splits)

lemma well_formed_decode_and_process:
  "well_formed (case decode_and_process E s of Inr resp \<Rightarrow> resp
                | Inl e \<Rightarrow> error_response (exc_str e))"
proof (cases "b64decode E s")
  case (Inl e)
  then show ?thesis by (simp add: decode_and_process_def well_formed_error_response)
next
  case (Inr bs)
  show ?thesis
  proof (cases "image_open E bs")
    case (Inl e)
    with Inr show ?thesis by (simp add: decode_and_process_def well_formed_error_response)
  next
    case img: (Inr img)
    with Inr well_formed_convert_and_process [of E img] show ?thesis
      by (simp add: decode_and_process_def)
  qed
qed

lemma ocr_from_base64_payload:
  "\<not> (startswith s ''data:'' \<and> CHR '','' \<notin> set s) \<Longrightarrow>
     ocr_from_base64 E s =
       (case decode_and_process E (payload s) of Inr resp \<Rightarrow> resp
        | Inl e \<Rightarrow> error_response (exc_str e))"
  by (auto simp: ocr_from_base64_def ocr_from_base64_try_def payload_def)

lemma ocr_from_base64_no_comma:
  "startswith s ''data:'' \<Longrightarrow> CHR '','' \<notin> set s \<Longrightarrow>
     ocr_from_base64 E s = error_response ''Invalid data URI format''"
  by (simp add: ocr_from_base64_def ocr_from_base64_try_def)

lemma well_formed_ocr_from_base64: "well_formed (ocr_from_base64 E s)"
proof (cases "startswith s ''data:'' \<and> CHR '','' \<notin> set s")
  case True
  then show ?thesis by (simp add: ocr_from_base64_no_comma well_formed_error_response)
next
  case False
  from ocr_from_base64_payload [OF False, of E]
    well_formed_decode_and_process [of E "payload s"]
  show ?thesis by simp
qed

lemma split_once_rest:
  "sep \<in> set s \<Longrightarrow> \<exists>pre. sep \<notin> set pre \<and> s = pre @ sep # (split_once sep s ! 1)"
proof -
  assume a: "sep \<in> set s"
  define pre where "pre = takeWhile (\<lambda>c. c \<noteq> sep) s"
  have n: "sep \<notin> set pre"
    unfolding pre_def by (auto dest: set_takeWhileD)
  from a have "dropWhile (\<lambda>c. c \<noteq> sep) s \<noteq> []" by simp
  moreover from this have "hd (dropWhile (\<lambda>c. c \<noteq> sep) s) = sep"
    using hd_dropWhile [of "\<lambda>c. c \<noteq> sep" s] by simp
  ultimately have "dropWhile (\<lambda>c. c \<noteq> sep) s = sep # tl (dropWhile (\<lambda>c. c \<noteq> sep) s)"
    by (cases "dropWhile (\<lambda>c. c \<noteq> sep) s") simp_all
  then have "s = pre @ sep # tl (dropWhile (\<lambda>c. c \<noteq> sep) s)"
    unfolding pre_def using takeWhile_dropWhile_id [of "\<lambda>c. c \<noteq> sep" s] by simp
  with a n show ?thesis by (auto simp: split_once_def)
qed

section \<open>The handlers in the sample environment\<close>

lemmas handler_eval =
  ocr_from_base64_def ocr_from_base64_try_def decode_and_process_def convert_and_process_def
  ocr_from_path_def ocr_from_path_try_def isabs_def
  startswith_def split_once_def sample_b64decode_def sample_image_open_def error_response_def
  bind_exc_def

lemma sample_base64_p:
  "ocr_from_base64 sample_env ''UAE='' = to_dict (process sample_env (''RGB'', 1))"
  by (simp add: handler_eval sample_env_def)

lemma sample_base64_failed:
  "ocr_from_base64 sample_env ''UgQ='' = to_dict (process sample_env (''RGB'', 4))"
  by (simp add: handler_eval sample_env_def)

lemma sample_base64_nothing:
  "ocr_from_base64 sample_env ''UgA='' = to_dict (process sample_env (''RGB'', 0))"
  by (simp add: handler_eval sample_env_def)

section \<open>Errors of the base64 handler\<close>

lemma ocr_from_base64_decode_error:
  assumes "\<not> (startswith s ''data:'' \<and> CHR '','' \<notin> set s)" "b64decode E (payload s) = Inl e"
  shows "ocr_from_base64 E s = error_response (''Invalid base64: '' @ exc_str e)"
  using assms(2) by (simp add: ocr_from_base64_payload [OF assms(1)] decode_and_process_def)

lemma ocr_from_base64_open_error:
  assumes "\<not> (startswith s ''data:'' \<and> CHR '','' \<notin> set s)"
    "b64decode E (payload s) = Inr img_bytes" "image_open E img_bytes = Inl e"
  shows "ocr_from_base64 E s = error_response (''Invalid image format: '' @ exc_str e)"
  using assms(2,3) by (simp add: ocr_from_base64_payload [OF assms(1)] decode_and_process_def)

lemma ocr_from_base64_convert_error:
  assumes "\<not> (startswith s ''data:'' \<and> CHR '','' \<notin> set s)"
    "b64decode E (payload s) = Inr img_bytes" "image_open E img_bytes = Inr img"
    "img_mode E img \<in> set [''RGBA'', ''P'', ''LA'', ''L'']" "convert_rgb E img = Inl e"
  shows "ocr_from_base64 E s = error_response (exc_str e)"
  using assms(2-5)
  by (simp add: ocr_from_base64_payload [OF assms(1)] decode_and_process_def
      convert_and_process_cases)

lemma error_messages_distinct:
  "''Invalid data URI format'' \<noteq> ''Invalid base64: '' @ m"
  "''Invalid data URI format'' \<noteq> ''Invalid image format: '' @ m"
  "''Invalid base64: '' @ m \<noteq> ''Invalid image format: '' @ m'"
  by simp_all

text \<open>
  Claim C3. \<^verbatim>\<open>ocr_from_base64\<close> on a string that starts with \<^verbatim>\<open>data:\<close> and has no comma
  answers with the error \<^verbatim>\<open>Invalid data URI format\<close>. Otherwise it decodes the payload
  (what follows the first comma of a data URI, the whole string else): a failure of the
  base64 decoder gives an error starting \<^verbatim>\<open>Invalid base64:\<close>, a failure to open the bytes
  as an image one starting \<^verbatim>\<open>Invalid image format:\<close>, and an exception of the conversion
  to RGB the exception's own message. The three messages differ whatever the exceptions
  say. Every answer, for every input, is a well-formed response: a text, a list of blocks,
  and an error only together with the empty text and no blocks.
\<close>

theorem ocr_from_base64_reports_errors:
  "(startswith s ''data:'' \<and> CHR '','' \<notin> set s \<longrightarrow>
      ocr_from_base64 E s = error_response ''Invalid data URI format'')
   \<and> (startswith s ''data:'' \<and> CHR '','' \<in> set s \<longrightarrow>
        (\<exists>pre. CHR '','' \<notin> set pre \<and> s = pre @ '','' @ payload s))
   \<and> (\<not> startswith s ''data:'' \<longrightarrow> payload s = s)
   \<and> (\<not> (startswith s ''data:'' \<and> CHR '','' \<notin> set s) \<and> b64decode E (payload s) = Inl e \<longrightarrow>
        ocr_from_base64 E s = error_response (''Invalid base64: '' @ exc_str e))
   \<and> (\<not> (startswith s ''data:'' \<and> CHR '','' \<notin> set s) \<and> b64decode E (payload s) = Inr img_bytes
        \<and> image_open E img_bytes = Inl e \<longrightarrow>
        ocr_from_base64 E s = error_response (''Invalid image format: '' @ exc_str e))
   \<and> (\<not> (startswith s ''data:'' \<and> CHR '','' \<notin> set s) \<and> b64decode E (payload s) = Inr img_bytes
        \<and> image_open E img_bytes = Inr img
        \<and> img_mode E img \<in> set [''RGBA'', ''P'', ''LA'', ''L''] \<and> convert_rgb E img = Inl e \<longrightarrow>
        ocr_from_base64 E s = error_response (exc_str e))
   \<and> ''Invalid data URI format'' \<noteq> ''Invalid base64: '' @ m
   \<and> ''Invalid data URI format'' \<noteq> ''Invalid image format: '' @ m
   \<and> ''Invalid base64: '' @ m \<noteq> ''Invalid image format: '' @ m'
   \<and> well_formed (ocr_from_base64 E s)
   \<and> well_formed (error_response m)"
proof (intro conjI impI)
  assume "startswith s ''data:'' \<and> CHR '','' \<notin> set s"
  then show "ocr_from_base64 E s = error_response ''Invalid data URI format''"
    by (simp add: ocr_from_base64_no_comma)
next
  assume a: "startswith s ''data:'' \<and> CHR '','' \<in> set s"
  then have "CHR '','' \<in> set s" by simp
  from split_once_rest [OF this] a
  show "\<exists>pre. CHR '','' \<notin> set pre \<and> s = pre @ '','' @ payload s"
    by (simp add: payload_def)
next
  assume "\<not> startswith s ''data:''"
  then show "payload s = s" by (simp add: payload_def)
next
  assume a: "\<not> (startswith s ''data:'' \<and> CHR '','' \<notin> set s) \<and> b64decode E (payload s) = Inl e"
  show "ocr_from_base64 E s = error_response (''Invalid base64: '' @ exc_str e)"
    by (rule ocr_from_base64_decode_error [OF a [THEN conjunct1] a [THEN conjunct2]])
next
  assume a: "\<not> (startswith s ''data:'' \<and> CHR '','' \<notin> set s) \<and> b64decode E (payload s) = Inr img_bytes
        \<and> image_open E img_bytes = Inl e"
  note b = a [THEN conjunct2]
  show "ocr_from_base64 E s = error_response (''Invalid image format: '' @ exc_str e)"
    by (rule ocr_from_base64_open_error [OF a [THEN conjunct1] b [THEN conjunct1]
          b [THEN conjunct2]])
next
  assume a: "\<not> (startswith s ''data:'' \<and> CHR '','' \<notin> set s) \<and> b64decode E (payload s) = Inr img_bytes
        \<and> image_open E img_bytes = Inr img
        \<and> img_mode E img \<in> set [''RGBA'', ''P'', ''LA'', ''L''] \<and> convert_rgb E img = Inl e"
  note b = a [THEN conjunct2]
  note c = b [THEN conjunct2]
  note d = c [THEN conjunct2]
  show "ocr_from_base64 E s = error_response (exc_str e)"
    by (rule ocr_from_base64_convert_error [OF a [THEN conjunct1] b [THEN conjunct1]
          c [THEN conjunct1] d [THEN conjunct1] d [THEN conjunct2]])
next
  show "well_formed (ocr_from_base64 E s)" by (rule well_formed_ocr_from_base64)
next
  show "well_formed (error_response m)" by (rule well_formed_error_response)
next
  show "''Invalid data URI format'' \<noteq> ''Invalid base64: '' @ m"
    by (rule error_messages_distinct(1))
next
  show "''Invalid data URI format'' \<noteq> ''Invalid image format: '' @ m"
    by (rule error_messages_distinct(2))
next
  show "''Invalid base64: '' @ m \<noteq> ''Invalid image format: '' @ m'"
    by (rule error_messages_distinct(3))
qed

theorem ocr_from_base64_reports_errors_witness:
  "startswith ''data:image/png;base64'' ''data:''
   \<and> CHR '','' \<notin> set ''data:image/png;base64''
   \<and> ocr_from_base64 sample_env ''data:image/png;base64'' =
        error_response ''Invalid data URI format''
   \<and> b64decode sample_env (payload ''xx'') = Inl (PyExc ''Error'' ''Incorrect padding'')
   \<and> ocr_from_base64 sample_env ''xx'' = error_response ''Invalid base64: Incorrect padding''
   \<and> b64decode sample_env (payload ''AAA='') = Inr [0, 0]
   \<and> image_open sample_env [0, 0] =
        Inl (PyExc ''UnidentifiedImageError'' ''cannot identify image file'')
   \<and> ocr_from_base64 sample_env ''AAA='' =
        error_response ''Invalid image format: cannot identify image file''
   \<and> b64decode sample_env (payload ''UAc='') = Inr [80, 7]
   \<and> image_open sample_env [80, 7] = Inr (''P'', 7)
   \<and> convert_rgb sample_env (''P'', 7) = Inl (PyExc ''OSError'' ''image file is truncated'')
   \<and> ocr_from_base64 sample_env ''UAc='' = error_response ''image file is truncated''
   \<and> payload ''data:image/png;base64,UgE='' = ''UgE=''
   \<and> well_formed (ocr_from_base64 sample_env ''data:image/png;base64,UgE='')"
proof -
  let ?pad = "PyExc ''Error'' ''Incorrect padding''"
  let ?unid = "PyExc ''UnidentifiedImageError'' ''cannot identify image file''"
  let ?trunc = "PyExc ''OSError'' ''image file is truncated''"
  have a1: "startswith ''data:image/png;base64'' ''data:''
      \<and> CHR '','' \<notin> set ''data:image/png;base64''"
    by (simp add: startswith_def)
  have n: "\<not> (startswith ''xx'' ''data:'' \<and> CHR '','' \<notin> set ''xx'')"
    "\<not> (startswith ''AAA='' ''data:'' \<and> CHR '','' \<notin> set ''AAA='')"
    "\<not> (startswith ''UAc='' ''data:'' \<and> CHR '','' \<notin> set ''UAc='')"
    by (simp_all add: startswith_def)
  have b2: "b64decode sample_env (payload ''xx'') = Inl ?pad"
    by (simp add: payload_def startswith_def sample_env_def sample_b64decode_def)
  have b3: "b64decode sample_env (payload ''AAA='') = Inr [0, 0]"
    by (simp add: payload_def startswith_def sample_env_def sample_b64decode_def)
  have o3: "image_open sample_env [0, 0] = Inl ?unid"
    by (simp add: sample_env_def sample_image_open_def)
  have b4: "b64decode sample_env (payload ''UAc='') = Inr [80, 7]"
    by (simp add: payload_def startswith_def sample_env_def sample_b64decode_def)
  have o4: "image_open sample_env [80, 7] = Inr (''P'', 7)"
    by (simp add: sample_env_def sample_image_open_def)
  have m4: "img_mode sample_env (''P'', 7) \<in> set [''RGBA'', ''P'', ''LA'', ''L'']"
    by (simp add: sample_env_def)
  have c4: "convert_rgb sample_env (''P'', 7) = Inl ?trunc"
    by (simp add: sample_env_def)
  have p5: "payload ''data:image/png;base64,UgE='' = ''UgE=''"
    by (simp add: payload_def startswith_def split_once_def)
  note t1 = ocr_from_base64_reports_errors
    [where s = "''data:image/png;base64''" and E = sample_env]
  note t2 = ocr_from_base64_reports_errors [where s = "''xx''" and E = sample_env and e = ?pad]
  note t3 = ocr_from_base64_reports_errors
    [where s = "''AAA=''" and E = sample_env and e = ?unid and img_bytes = "[0, 0]"]
  note t4 = ocr_from_base64_reports_errors
    [where s = "''UAc=''" and E = sample_env and e = ?trunc and img_bytes = "[80, 7]"
       and img = "(''P'', 7)"]
  note t5 = ocr_from_base64_reports_errors
    [where s = "''data:image/png;base64,UgE=''" and E = sample_env]
  have r1: "ocr_from_base64 sample_env ''data:image/png;base64'' =
        error_response ''Invalid data URI format''"
    using t1 a1 by simp
  have r2: "ocr_from_base64 sample_env ''xx'' = error_response ''Invalid base64: Incorrect padding''"
    using t2 n(1) b2 by simp
  have r3: "ocr_from_base64 sample_env ''AAA='' =
        error_response ''Invalid image format: cannot identify image file''"
    using t3 n(2) b3 o3 by simp
  have r4: "ocr_from_base64 sample_env ''UAc='' = error_response ''image file is truncated''"
    using t4 n(3) b4 o4 m4 c4 by simp
  have r5: "well_formed (ocr_from_base64 sample_env ''data:image/png;base64,UgE='')"
    using t5 by simp
  show ?thesis
    by (intro conjI a1 [THEN conjunct1] a1 [THEN conjunct2] r1 b2 r2 b3 o3 r3 b4 o4 c4 r4 p5 r5)
qed

section \<open>The error key\<close>

text \<open>
  Claim C10. The response has the \<^verbatim>\<open>error\<close> key exactly when the call failed. The code
  breaks this when the caught exception has the empty message: the detector raises
  \<^verbatim>\<open>AssertionError()\<close>, \<^verbatim>\<open>process\<close> sets the error field to the empty string, and
  \<^verbatim>\<open>to_dict\<close>, which tests the field's truth value, leaves the key out. The response is
  the one of an image with no text.
\<close>

theorem empty_error_message_is_dropped:
  "detect sample_env (''RGB'', 4) = Inl (PyExc ''AssertionError'' [])
   \<and> r_error (process sample_env (''RGB'', 4)) = Some []
   \<and> dict_get (to_dict (process sample_env (''RGB'', 4))) ''error'' = None
   \<and> ocr_from_base64 sample_env ''UgQ='' = PDict [(''text'', PStr []), (''blocks'', PList [])]
   \<and> detect sample_env (''RGB'', 0) = Inr (PNone, PList [PFloat (1/4), PFloat (1/2)])
   \<and> r_error (process sample_env (''RGB'', 0)) = None
   \<and> ocr_from_base64 sample_env ''UgA='' = PDict [(''text'', PStr []), (''blocks'', PList [])]"
proof -
  have d4: "detect sample_env (''RGB'', 4) = Inl (PyExc ''AssertionError'' [])"
    and d0: "detect sample_env (''RGB'', 0) = Inr (PNone, PList [PFloat (1/4), PFloat (1/2)])"
    by (simp_all add: sample_env_def sample_detect_def)
  have e4: "r_error (process sample_env (''RGB'', 4)) = Some []"
    and e0: "r_error (process sample_env (''RGB'', 0)) = None"
    by (simp_all add: sample_process_4 sample_process_0)
  have k4: "dict_get (to_dict (process sample_env (''RGB'', 4))) ''error'' = None"
    by (simp add: sample_process_4 to_dict_def)
  have r4: "ocr_from_base64 sample_env ''UgQ='' = PDict [(''text'', PStr []), (''blocks'', PList [])]"
    by (simp add: sample_base64_failed sample_process_4 to_dict_def)
  have r0: "ocr_from_base64 sample_env ''UgA='' = PDict [(''text'', PStr []), (''blocks'', PList [])]"
    by (simp add: sample_base64_nothing sample_process_0 to_dict_def)
  show ?thesis
    by (intro conjI d4 e4 k4 r4 d0 e0 r0)
qed


section \<open>Validation of the path\<close>

lemma ocr_from_path_valid:
  assumes "p \<noteq> []" "isabs p" "path_exists E p" "path_isfile E p"
  shows "ocr_from_path E p =
     (case image_open_path E p of
        Inl e \<Rightarrow> error_response (''Failed to open image: '' @ exc_str e)
      | Inr img \<Rightarrow>
          (case convert_and_process E img of Inr resp \<Rightarrow> resp
           | Inl e \<Rightarrow> error_response (exc_str e)))"
  using assms by (simp add: ocr_from_path_def ocr_from_path_try_def split: sum.splits)

lemma well_formed_ocr_from_path: "well_formed (ocr_from_path E p)"
proof (cases "p \<noteq> [] \<and> isabs p \<and> path_exists E p \<and> path_isfile E p")
  case False
  then show ?thesis
    by (auto simp: ocr_from_path_def ocr_from_path_try_def well_formed_error_response)
next
  case True
  then have v: "p \<noteq> []" "isabs p" "path_exists E p" "path_isfile E p" by simp_all
  show ?thesis
  proof (cases "image_open_path E p")
    case (Inl e)
    then show ?thesis
      by (simp add: ocr_from_path_valid [OF v] well_formed_error_response)
  next
    case (Inr img)
    with well_formed_convert_and_process [of E img] show ?thesis
      by (simp add: ocr_from_path_valid [OF v])
  qed
qed

lemma path_messages_distinct:
  "''File path is required'' \<noteq> ''File path must be absolute''"
  "''File path is required'' \<noteq> ''File not found: '' @ p"
  "''File path is required'' \<noteq> ''Not a file: '' @ p"
  "''File path must be absolute'' \<noteq> ''File not found: '' @ p"
  "''File path must be absolute'' \<noteq> ''Not a file: '' @ p"
  "''File not found: '' @ p \<noteq> ''Not a file: '' @ p'"
  by simp_all


text \<open>
  Claim C4. \<^verbatim>\<open>ocr_from_path\<close> checks, in this order and stopping at the first check that
  fails, that the path is not empty, that it is absolute, that it exists, that it is a
  regular file; each failure has its own message (\<^verbatim>\<open>File path is required\<close>, \<^verbatim>\<open>File path
  must be absolute\<close>, \<^verbatim>\<open>File not found:\<close> and \<^verbatim>\<open>Not a file:\<close> followed by the path),
  different from the others whatever the path. A file that does not open as an image is
  reported too. Every answer, for every input, is a well-formed response.
\<close>

theorem ocr_from_path_validates_in_order:
  "(p = [] \<longrightarrow> ocr_from_path E p = error_response ''File path is required'')
   \<and> (p \<noteq> [] \<and> \<not> isabs p \<longrightarrow>
        ocr_from_path E p = error_response ''File path must be absolute'')
   \<and> (p \<noteq> [] \<and> isabs p \<and> \<not> path_exists E p \<longrightarrow>
        ocr_from_path E p = error_response (''File not found: '' @ p))
   \<and> (p \<noteq> [] \<and> isabs p \<and> path_exists E p \<and> \<not> path_isfile E p \<longrightarrow>
        ocr_from_path E p = error_response (''Not a file: '' @ p))
   \<and> (p \<noteq> [] \<and> isabs p \<and> path_exists E p \<and> path_isfile E p
        \<and> image_open_path E p = Inl e \<longrightarrow>
        ocr_from_path E p = error_response (''Failed to open image: '' @ exc_str e))
   \<and> ''File path is required'' \<noteq> ''File path must be absolute''
   \<and> ''File path is required'' \<noteq> ''File not found: '' @ q
   \<and> ''File path is required'' \<noteq> ''Not a file: '' @ q
   \<and> ''File path must be absolute'' \<noteq> ''File not found: '' @ q
   \<and> ''File path must be absolute'' \<noteq> ''Not a file: '' @ q
   \<and> ''File not found: '' @ q \<noteq> ''Not a file: '' @ q'
   \<and> well_formed (ocr_from_path E p)"
proof (intro conjI impI)
  assume "p = []"
  then show "ocr_from_path E p = error_response ''File path is required''"
    by (simp add: ocr_from_path_def ocr_from_path_try_def)
next
  assume "p \<noteq> [] \<and> \<not> isabs p"
  then show "ocr_from_path E p = error_response ''File path must be absolute''"
    by (simp add: ocr_from_path_def ocr_from_path_try_def)
next
  assume "p \<noteq> [] \<and> isabs p \<and> \<not> path_exists E p"
  then show "ocr_from_path E p = error_response (''File not found: '' @ p)"
    by (simp add: ocr_from_path_def ocr_from_path_try_def)
next
  assume "p \<noteq> [] \<and> isabs p \<and> path_exists E p \<and> \<not> path_isfile E p"
  then show "ocr_from_path E p = error_response (''Not a file: '' @ p)"
    by (simp add: ocr_from_path_def ocr_from_path_try_def)
next
  assume "p \<noteq> [] \<and> isabs p \<and> path_exists E p \<and> path_isfile E p
        \<and> image_open_path E p = Inl e"
  then show "ocr_from_path E p = error_response (''Failed to open image: '' @ exc_str e)"
    by (simp add: ocr_from_path_def ocr_from_path_try_def)
next
  show "well_formed (ocr_from_path E p)" by (rule well_formed_ocr_from_path)
next
  show "''File path is required'' \<noteq> ''File path must be absolute''"
    by (rule path_messages_distinct(1))
next
  show "''File path is required'' \<noteq> ''File not found: '' @ q"
    by (rule path_messages_distinct(2))
next
  show "''File path is required'' \<noteq> ''Not a file: '' @ q"
    by (rule path_messages_distinct(3))
next
  show "''File path must be absolute'' \<noteq> ''File not found: '' @ q"
    by (rule path_messages_distinct(4))
next
  show "''File path must be absolute'' \<noteq> ''Not a file: '' @ q"
    by (rule path_messages_distinct(5))
next
  show "''File not found: '' @ q \<noteq> ''Not a file: '' @ q'"
    by (rule path_messages_distinct(6))
qed

theorem ocr_from_path_validates_in_order_witness:
  "ocr_from_path sample_env [] = error_response ''File path is required''
   \<and> \<not> isabs ''relative/path.png''
   \<and> ocr_from_path sample_env ''relative/path.png'' = error_response ''File path must be absolute''
   \<and> isabs ''/nonexistent/file.png'' \<and> \<not> path_exists sample_env ''/nonexistent/file.png''
   \<and> ocr_from_path sample_env ''/nonexistent/file.png'' =
        error_response ''File not found: /nonexistent/file.png''
   \<and> isabs ''/data'' \<and> path_exists sample_env ''/data'' \<and> \<not> path_isfile sample_env ''/data''
   \<and> ocr_from_path sample_env ''/data'' = error_response ''Not a file: /data''
   \<and> isabs ''/data/notes.txt'' \<and> path_exists sample_env ''/data/notes.txt''
   \<and> path_isfile sample_env ''/data/notes.txt''
   \<and> image_open_path sample_env ''/data/notes.txt'' =
        Inl (PyExc ''UnidentifiedImageError'' ''cannot identify image file'')
   \<and> ocr_from_path sample_env ''/data/notes.txt'' =
        error_response ''Failed to open image: cannot identify image file''
   \<and> well_formed (ocr_from_path sample_env ''/data/scan.png'')"
proof -
  let ?unid = "PyExc ''UnidentifiedImageError'' ''cannot identify image file''"
  note t0 = ocr_from_path_validates_in_order [where p = "[]" and E = sample_env]
  note t1 = ocr_from_path_validates_in_order [where p = "''relative/path.png''" and E = sample_env]
  note t2 = ocr_from_path_validates_in_order
    [where p = "''/nonexistent/file.png''" and E = sample_env]
  note t3 = ocr_from_path_validates_in_order [where p = "''/data''" and E = sample_env]
  note t4 = ocr_from_path_validates_in_order
    [where p = "''/data/notes.txt''" and E = sample_env and e = ?unid]
  note t5 = ocr_from_path_validates_in_order [where p = "''/data/scan.png''" and E = sample_env]
  have a1: "\<not> isabs ''relative/path.png''"
    by (simp add: isabs_def startswith_def)
  have a2: "isabs ''/nonexistent/file.png''" "\<not> path_exists sample_env ''/nonexistent/file.png''"
    by (simp_all add: isabs_def startswith_def sample_env_def)
  have a3: "isabs ''/data''" "path_exists sample_env ''/data''" "\<not> path_isfile sample_env ''/data''"
    by (simp_all add: isabs_def startswith_def sample_env_def)
  have a4: "isabs ''/data/notes.txt''" "path_exists sample_env ''/data/notes.txt''"
    "path_isfile sample_env ''/data/notes.txt''"
    "image_open_path sample_env ''/data/notes.txt'' = Inl ?unid"
    by (simp_all add: isabs_def startswith_def sample_env_def)
  have r0: "ocr_from_path sample_env [] = error_response ''File path is required''"
    using t0 by simp
  have r1: "ocr_from_path sample_env ''relative/path.png'' =
      error_response ''File path must be absolute''"
    using t1 a1 by simp
  have r2: "ocr_from_path sample_env ''/nonexistent/file.png'' =
        error_response ''File not found: /nonexistent/file.png''"
    using t2 a2 by simp
  have r3: "ocr_from_path sample_env ''/data'' = error_response ''Not a file: /data''"
    using t3 a3 by simp
  have r4: "ocr_from_path sample_env ''/data/notes.txt'' =
        error_response ''Failed to open image: cannot identify image file''"
    using t4 a4 by simp
  have r5: "well_formed (ocr_from_path sample_env ''/data/scan.png'')"
    using t5 by simp
  show ?thesis
    by (intro conjI r0 a1 r1 a2 r2 a3 r3 a4 r4 r5)
qed

section \<open>Conversion to RGB\<close>

lemma sample_decode:
  "b64decode sample_env (payload ''QQE='') = Inr [65, 1]"
  "b64decode sample_env (payload ''UgE='') = Inr [82, 1]"
  "b64decode sample_env ''UgE='' = Inr [82, 1]"
  "b64decode sample_env ''UAE='' = Inr [80, 1]"
  by (simp_all add: payload_def startswith_def sample_env_def sample_b64decode_def)

lemma sample_open:
  "image_open sample_env [65, 1] = Inr (''RGBA'', 1)"
  "image_open sample_env [82, 1] = Inr (''RGB'', 1)"
  "image_open sample_env [80, 1] = Inr (''P'', 1)"
  by (simp_all add: sample_env_def sample_image_open_def)

lemma sample_no_prefix:
  "\<not> startswith ''UgE='' ''data:''"
  "\<not> (startswith ''QQE='' ''data:'' \<and> CHR '','' \<notin> set ''QQE='')"
  "\<not> (startswith ''UgE='' ''data:'' \<and> CHR '','' \<notin> set ''UgE='')"
  by (simp_all add: startswith_def)

lemma sample_modes:
  "img_mode sample_env (''RGBA'', 1) = ''RGBA''"
  "img_mode sample_env (''RGB'', 1) = ''RGB''"
  "img_mode sample_env (''P'', 1) = ''P''"
  by (simp_all add: sample_env_def)

lemma sample_paths:
  "isabs ''/data/icon.png''" "path_exists sample_env ''/data/icon.png''"
  "path_isfile sample_env ''/data/icon.png''"
  "image_open_path sample_env ''/data/icon.png'' = Inr (''P'', 1)"
  by (simp_all add: isabs_def startswith_def sample_env_def)


lemma ocr_from_base64_opened:
  assumes "\<not> (startswith s ''data:'' \<and> CHR '','' \<notin> set s)"
    "b64decode E (payload s) = Inr img_bytes" "image_open E img_bytes = Inr img"
  shows "ocr_from_base64 E s =
     (if img_mode E img \<in> set [''RGBA'', ''P'', ''LA'', ''L'']
      then (case convert_rgb E img of
              Inr img' \<Rightarrow> to_dict (process E img')
            | Inl e \<Rightarrow> error_response (exc_str e))
      else to_dict (process E img))"
  using assms(2,3)
  by (simp add: ocr_from_base64_payload [OF assms(1)] decode_and_process_def
      convert_and_process_cases split: sum.splits)

lemma ocr_from_path_opened:
  assumes "p \<noteq> []" "isabs p" "path_exists E p" "path_isfile E p"
    "image_open_path E p = Inr img"
  shows "ocr_from_path E p =
     (if img_mode E img \<in> set [''RGBA'', ''P'', ''LA'', ''L'']
      then (case convert_rgb E img of
              Inr img' \<Rightarrow> to_dict (process E img')
            | Inl e \<Rightarrow> error_response (exc_str e))
      else to_dict (process E img))"
  using assms(5)
  by (simp add: ocr_from_path_valid [OF assms(1-4)] convert_and_process_cases
      split: sum.splits)

lemma rgba_same_as_rgb:
  assumes "\<not> (startswith s ''data:'' \<and> CHR '','' \<notin> set s)"
    "b64decode E (payload s) = Inr img_bytes" "image_open E img_bytes = Inr rgba"
    "img_mode E rgba = ''RGBA''" "convert_rgb E rgba = Inr rgb"
    "\<not> (startswith s' ''data:'' \<and> CHR '','' \<notin> set s')"
    "b64decode E (payload s') = Inr img_bytes'" "image_open E img_bytes' = Inr rgb"
    "img_mode E rgb = ''RGB''"
  shows "ocr_from_base64 E s = ocr_from_base64 E s'"
proof -
  have "ocr_from_base64 E s = to_dict (process E rgb)"
    using assms(4,5) by (simp add: ocr_from_base64_opened [OF assms(1-3)])
  moreover have "ocr_from_base64 E s' = to_dict (process E rgb)"
    using assms(9) by (simp add: ocr_from_base64_opened [OF assms(6-8)])
  ultimately show ?thesis by simp
qed


text \<open>
  Claim C8. In both handlers the image handed to the engine is the opened image,
  converted to RGB exactly when its mode is RGBA, P, LA or L, and the opened image itself
  for every other mode (an exception of the conversion becomes the error of the
  response). So an RGBA image and the RGB image it converts to get the same response,
  with the same text.
\<close>

theorem mode_normalisation:
  "(\<not> (startswith s ''data:'' \<and> CHR '','' \<notin> set s) \<and> b64decode E (payload s) = Inr img_bytes
      \<and> image_open E img_bytes = Inr img \<longrightarrow>
      ocr_from_base64 E s =
        (if img_mode E img \<in> set [''RGBA'', ''P'', ''LA'', ''L'']
         then (case convert_rgb E img of
                 Inr img' \<Rightarrow> to_dict (process E img')
               | Inl e \<Rightarrow> error_response (exc_str e))
         else to_dict (process E img)))
   \<and> (p \<noteq> [] \<and> isabs p \<and> path_exists E p \<and> path_isfile E p
        \<and> image_open_path E p = Inr img \<longrightarrow>
      ocr_from_path E p =
        (if img_mode E img \<in> set [''RGBA'', ''P'', ''LA'', ''L'']
         then (case convert_rgb E img of
                 Inr img' \<Rightarrow> to_dict (process E img')
               | Inl e \<Rightarrow> error_response (exc_str e))
         else to_dict (process E img)))
   \<and> (\<not> (startswith s ''data:'' \<and> CHR '','' \<notin> set s) \<and> b64decode E (payload s) = Inr img_bytes
        \<and> image_open E img_bytes = Inr rgba
        \<and> img_mode E rgba = ''RGBA'' \<and> convert_rgb E rgba = Inr rgb
        \<and> \<not> (startswith s' ''data:'' \<and> CHR '','' \<notin> set s')
        \<and> b64decode E (payload s') = Inr img_bytes' \<and> image_open E img_bytes' = Inr rgb
        \<and> img_mode E rgb = ''RGB'' \<longrightarrow>
      ocr_from_base64 E s = ocr_from_base64 E s'
      \<and> dict_get (ocr_from_base64 E s) ''text'' = dict_get (ocr_from_base64 E s') ''text'')"
proof (intro conjI impI)
  assume a: "\<not> (startswith s ''data:'' \<and> CHR '','' \<notin> set s)
      \<and> b64decode E (payload s) = Inr img_bytes \<and> image_open E img_bytes = Inr img"
  note b = a [THEN conjunct2]
  show "ocr_from_base64 E s =
        (if img_mode E img \<in> set [''RGBA'', ''P'', ''LA'', ''L'']
         then (case convert_rgb E img of
                 Inr img' \<Rightarrow> to_dict (process E img')
               | Inl e \<Rightarrow> error_response (exc_str e))
         else to_dict (process E img))"
    by (rule ocr_from_base64_opened [OF a [THEN conjunct1] b [THEN conjunct1]
          b [THEN conjunct2]])
next
  assume a: "p \<noteq> [] \<and> isabs p \<and> path_exists E p \<and> path_isfile E p
        \<and> image_open_path E p = Inr img"
  note b = a [THEN conjunct2]
  note c = b [THEN conjunct2]
  note d = c [THEN conjunct2]
  show "ocr_from_path E p =
        (if img_mode E img \<in> set [''RGBA'', ''P'', ''LA'', ''L'']
         then (case convert_rgb E img of
                 Inr img' \<Rightarrow> to_dict (process E img')
               | Inl e \<Rightarrow> error_response (exc_str e))
         else to_dict (process E img))"
    by (rule ocr_from_path_opened [OF a [THEN conjunct1] b [THEN conjunct1]
          c [THEN conjunct1] d [THEN conjunct1] d [THEN conjunct2]])
next
  assume a: "\<not> (startswith s ''data:'' \<and> CHR '','' \<notin> set s)
        \<and> b64decode E (payload s) = Inr img_bytes
        \<and> image_open E img_bytes = Inr rgba
        \<and> img_mode E rgba = ''RGBA'' \<and> convert_rgb E rgba = Inr rgb
        \<and> \<not> (startswith s' ''data:'' \<and> CHR '','' \<notin> set s')
        \<and> b64decode E (payload s') = Inr img_bytes' \<and> image_open E img_bytes' = Inr rgb
        \<and> img_mode E rgb = ''RGB''"
  note a2 = a [THEN conjunct2]
  note a3 = a2 [THEN conjunct2]
  note a4 = a3 [THEN conjunct2]
  note a5 = a4 [THEN conjunct2]
  note a6 = a5 [THEN conjunct2]
  note a7 = a6 [THEN conjunct2]
  note a8 = a7 [THEN conjunct2]
  have eq: "ocr_from_base64 E s = ocr_from_base64 E s'"
    by (rule rgba_same_as_rgb [OF a [THEN conjunct1] a2 [THEN conjunct1] a3 [THEN conjunct1]
          a4 [THEN conjunct1] a5 [THEN conjunct1] a6 [THEN conjunct1] a7 [THEN conjunct1]
          a8 [THEN conjunct1] a8 [THEN conjunct2]])
  show "ocr_from_base64 E s = ocr_from_base64 E s'" by (rule eq)
  show "dict_get (ocr_from_base64 E s) ''text'' = dict_get (ocr_from_base64 E s') ''text''"
    by (simp only: eq)
qed


theorem mode_normalisation_witness:
  "b64decode sample_env (payload ''QQE='') = Inr [65, 1]
   \<and> image_open sample_env [65, 1] = Inr (''RGBA'', 1)
   \<and> img_mode sample_env (''RGBA'', 1) = ''RGBA''
   \<and> convert_rgb sample_env (''RGBA'', 1) = Inr (''RGB'', 1)
   \<and> ocr_from_base64 sample_env ''QQE='' = to_dict (process sample_env (''RGB'', 1))
   \<and> b64decode sample_env (payload ''UgE='') = Inr [82, 1]
   \<and> image_open sample_env [82, 1] = Inr (''RGB'', 1)
   \<and> img_mode sample_env (''RGB'', 1) = ''RGB''
   \<and> ocr_from_base64 sample_env ''UgE='' = to_dict (process sample_env (''RGB'', 1))
   \<and> ocr_from_base64 sample_env ''QQE='' = ocr_from_base64 sample_env ''UgE=''
   \<and> dict_get (ocr_from_base64 sample_env ''QQE='') ''text''
        = dict_get (ocr_from_base64 sample_env ''UgE='') ''text''
   \<and> image_open_path sample_env ''/data/icon.png'' = Inr (''P'', 1)
   \<and> ocr_from_path sample_env ''/data/icon.png'' = to_dict (process sample_env (''RGB'', 1))"
proof -
  have cv: "convert_rgb sample_env (''RGBA'', 1) = Inr (''RGB'', 1)"
    "convert_rgb sample_env (''P'', 1) = Inr (''RGB'', 1)"
    by (simp_all add: sample_env_def)
  have ne: "''/data/icon.png'' \<noteq> []" by simp
  note t1 = mode_normalisation
    [where s = "''QQE=''" and E = sample_env and img_bytes = "[65, 1]" and img = "(''RGBA'', 1)"
       and rgba = "(''RGBA'', 1)" and rgb = "(''RGB'', 1)" and s' = "''UgE=''"
       and img_bytes' = "[82, 1]"]
  note t2 = mode_normalisation
    [where s = "''UgE=''" and E = sample_env and img_bytes = "[82, 1]" and img = "(''RGB'', 1)"]
  note t3 = mode_normalisation
    [where p = "''/data/icon.png''" and E = sample_env and img = "(''P'', 1)"]
  have r1: "ocr_from_base64 sample_env ''QQE='' = to_dict (process sample_env (''RGB'', 1))"
    using t1 [THEN conjunct1] sample_no_prefix(2) sample_decode(1) sample_open(1)
      sample_modes(1) cv(1)
    by simp
  have r2: "ocr_from_base64 sample_env ''UgE='' = to_dict (process sample_env (''RGB'', 1))"
    using t2 [THEN conjunct1] sample_no_prefix(3) sample_decode(2) sample_open(2)
      sample_modes(2)
    by simp
  have r3: "ocr_from_base64 sample_env ''QQE='' = ocr_from_base64 sample_env ''UgE=''
      \<and> dict_get (ocr_from_base64 sample_env ''QQE='') ''text''
        = dict_get (ocr_from_base64 sample_env ''UgE='') ''text''"
    using t1 [THEN conjunct2, THEN conjunct2] sample_no_prefix(2,3) sample_decode(1,2)
      sample_open(1,2) sample_modes(1,2) cv(1)
    by simp
  have r4: "ocr_from_path sample_env ''/data/icon.png'' = to_dict (process sample_env (''RGB'', 1))"
    using t3 [THEN conjunct2, THEN conjunct1] ne sample_paths sample_modes(3) cv(2)
    by simp
  show ?thesis
    by (intro conjI sample_decode(1) sample_open(1) sample_modes(1) cv(1) r1 sample_decode(2)
        sample_open(2) sample_modes(2) r2 r3 [THEN conjunct1] r3 [THEN conjunct2]
        sample_paths(4) r4)
qed


section \<open>Round trip through base64\<close>

text \<open>
  Claim C7, as the code has it. For an image whose mode is none of RGBA, P, LA and L,
  \<^verbatim>\<open>ocr_from_base64\<close> on a base64 string that decodes to the image's bytes answers with
  the dictionary of the result \<^verbatim>\<open>process\<close> gives on the image: the same text, the same
  blocks, no error when the result has none, and the result's error message when it is
  not empty.
\<close>

theorem base64_round_trip:
  assumes "\<not> startswith s ''data:''" "b64decode E s = Inr img_bytes"
    and "image_open E img_bytes = Inr img"
    and "img_mode E img \<notin> set [''RGBA'', ''P'', ''LA'', ''L'']"
  shows "ocr_from_base64 E s = to_dict (process E img)
    \<and> dict_get (ocr_from_base64 E s) ''text'' = Some (PStr (r_text (process E img)))
    \<and> dict_get (ocr_from_base64 E s) ''blocks'' =
        Some (PList (map block_dict (r_blocks (process E img))))
    \<and> (r_error (process E img) = None \<longrightarrow> dict_get (ocr_from_base64 E s) ''error'' = None)
    \<and> (r_error (process E img) = Some m \<and> m \<noteq> [] \<longrightarrow>
         dict_get (ocr_from_base64 E s) ''error'' = Some (PStr m))"
proof -
  from assms(1) have n: "\<not> (startswith s ''data:'' \<and> CHR '','' \<notin> set s)"
    and p: "payload s = s"
    by (simp_all add: payload_def)
  from assms(2) p have b: "b64decode E (payload s) = Inr img_bytes" by simp
  have eq: "ocr_from_base64 E s = to_dict (process E img)"
    using assms(4) by (simp add: ocr_from_base64_opened [OF n b assms(3)])
  show ?thesis
    unfolding eq by (simp add: to_dict_text to_dict_blocks to_dict_error)
qed

theorem base64_round_trip_witness:
  "\<not> startswith ''UgE='' ''data:''
   \<and> b64decode sample_env ''UgE='' = Inr [82, 1]
   \<and> image_open sample_env [82, 1] = Inr (''RGB'', 1)
   \<and> img_mode sample_env (''RGB'', 1) \<notin> set [''RGBA'', ''P'', ''LA'', ''L'']
   \<and> r_error (process sample_env (''RGB'', 1)) = None
   \<and> ocr_from_base64 sample_env ''UgE='' = to_dict (process sample_env (''RGB'', 1))
   \<and> dict_get (ocr_from_base64 sample_env ''UgE='') ''text'' = Some (PStr ''Hello\<newline>World'')
   \<and> dict_get (ocr_from_base64 sample_env ''UgE='') ''error'' = None"
proof -
  have m: "img_mode sample_env (''RGB'', 1) \<notin> set [''RGBA'', ''P'', ''LA'', ''L'']"
    by (simp add: sample_env_def)
  have e: "r_error (process sample_env (''RGB'', 1)) = None"
    and t: "r_text (process sample_env (''RGB'', 1)) = ''Hello\<newline>World''"
    using sample_process_1 by simp_all
  note rt = base64_round_trip [OF sample_no_prefix(1) sample_decode(3) sample_open(2) m]
  have r1: "ocr_from_base64 sample_env ''UgE='' = to_dict (process sample_env (''RGB'', 1))"
    by (rule rt [THEN conjunct1])
  have r2: "dict_get (ocr_from_base64 sample_env ''UgE='') ''text'' = Some (PStr ''Hello\<newline>World'')"
    using rt [THEN conjunct2, THEN conjunct1] t by simp
  have r3: "dict_get (ocr_from_base64 sample_env ''UgE='') ''error'' = None"
    using rt [THEN conjunct2, THEN conjunct2, THEN conjunct2, THEN conjunct1] e by simp
  show ?thesis
    by (intro conjI sample_no_prefix(1) sample_decode(3) sample_open(2) m e r1 r2 r3)
qed


text \<open>
  For the four converted modes the engine sees the converted image, not the decoded one.
  In the sample environment the detector refuses a P image and reads the RGB image it
  converts to: the handler answers with the text, \<^verbatim>\<open>process\<close> on the decoded image with
  an error.
\<close>

theorem base64_round_trip_counterexample:
  "b64decode sample_env ''UAE='' = Inr [80, 1]
   \<and> image_open sample_env [80, 1] = Inr (''P'', 1)
   \<and> dict_get (ocr_from_base64 sample_env ''UAE='') ''text'' = Some (PStr ''Hello\<newline>World'')
   \<and> dict_get (ocr_from_base64 sample_env ''UAE='') ''error'' = None
   \<and> r_text (process sample_env (''P'', 1)) = []
   \<and> r_error (process sample_env (''P'', 1)) = Some ''unsupported image mode''
   \<and> ocr_from_base64 sample_env ''UAE='' \<noteq> to_dict (process sample_env (''P'', 1))"
proof -
  have t: "dict_get (ocr_from_base64 sample_env ''UAE='') ''text'' = Some (PStr ''Hello\<newline>World'')"
    and e: "dict_get (ocr_from_base64 sample_env ''UAE='') ''error'' = None"
    using sample_process_1 by (simp_all add: sample_base64_p to_dict_text to_dict_error)
  have pt: "r_text (process sample_env (''P'', 1)) = []"
    and pe: "r_error (process sample_env (''P'', 1)) = Some ''unsupported image mode''"
    using sample_process_P by simp_all
  have "dict_get (to_dict (process sample_env (''P'', 1))) ''text'' = Some (PStr [])"
    using pt by (simp add: to_dict_text)
  with t have ne: "ocr_from_base64 sample_env ''UAE='' \<noteq> to_dict (process sample_env (''P'', 1))"
    by auto
  show ?thesis
    by (intro conjI sample_decode(4) sample_open(3) t e pt pe ne)
qed


end
